theory Spec2Isabelle
  imports Complex_Main
begin

section \<open>The trust-region framework of COBYQA (cobyqa/framework.py)\<close>

text \<open>
  This theory embeds the class \<open>TrustRegion\<close> of \<open>cobyqa/framework.py\<close>. NumPy's
  double-precision numbers are modelled by the real numbers, one-dimensional arrays by
  lists of reals and two-dimensional arrays by lists of rows. Two effects of the
  double-precision arithmetic are modelled explicitly: a square root of a negative
  number, which is not a real number (\<open>np_sqrt\<close>), and the underflow to zero of the
  product of the resolution and the final resolution in \<open>reduce_resolution\<close>
  (\<open>np_mul\<close>). Elementwise operations follow the shorter operand; in the source the
  operands always have equal shapes (NumPy raises otherwise).
\<close>

subsection \<open>Arrays\<close>

type_synonym vec = "real list"
type_synonym mat = "real list list"

text \<open>\<open>u + v\<close>, \<open>u - v\<close>, \<open>-u\<close>, \<open>c * u\<close> on one-dimensional arrays.\<close>

definition vadd :: "vec \<Rightarrow> vec \<Rightarrow> vec" where
  "vadd u v = map2 (+) u v"

definition vsub :: "vec \<Rightarrow> vec \<Rightarrow> vec" where
  "vsub u v = map2 (-) u v"

definition vneg :: "vec \<Rightarrow> vec" where
  "vneg u = map uminus u"

definition smul :: "real \<Rightarrow> vec \<Rightarrow> vec" where
  "smul c u = map ((*) c) u"

text \<open>\<open>u @ v\<close> on two one-dimensional arrays.\<close>

definition dot :: "vec \<Rightarrow> vec \<Rightarrow> real" where
  "dot u v = sum_list (map2 (*) u v)"

text \<open>\<open>a @ v\<close> for a matrix \<open>a\<close> and a vector \<open>v\<close>.\<close>

definition matvec :: "mat \<Rightarrow> vec \<Rightarrow> vec" where
  "matvec a v = map (\<lambda>row. dot row v) a"

text \<open>
  \<open>w @ a\<close> for a vector \<open>w\<close> of shape \<open>(m,)\<close> and a matrix \<open>a\<close> of shape \<open>(m, n)\<close>:
  the combination of the rows of \<open>a\<close> with the weights \<open>w\<close>, of shape \<open>(n,)\<close> also
  when \<open>m = 0\<close>.
\<close>

definition vecmat :: "nat \<Rightarrow> vec \<Rightarrow> mat \<Rightarrow> vec" where
  "vecmat k w a = foldr vadd (map2 smul w a) (replicate k 0)"

text \<open>\<open>np.linalg.norm\<close> of a one-dimensional array.\<close>

definition linalg_norm :: "vec \<Rightarrow> real" where
  "linalg_norm v = sqrt (sum_list (map (\<lambda>x. x * x) v))"

text \<open>\<open>np.maximum(v, 0.0)\<close> and \<open>np.abs(v)\<close>.\<close>

definition maximum0 :: "vec \<Rightarrow> vec" where
  "maximum0 v = map (\<lambda>x. max x 0) v"

definition vabs :: "vec \<Rightarrow> vec" where
  "vabs v = map abs v"

text \<open>\<open>np.any(u < v)\<close>, \<open>u >= v\<close> and \<open>u <= v\<close> elementwise.\<close>

definition any_lt :: "vec \<Rightarrow> vec \<Rightarrow> bool" where
  "any_lt u v = list_ex (\<lambda>(a, b). a < b) (zip u v)"

definition vge :: "vec \<Rightarrow> vec \<Rightarrow> bool list" where
  "vge u v = map2 (\<lambda>a b. a \<ge> b) u v"

definition vle :: "vec \<Rightarrow> vec \<Rightarrow> bool list" where
  "vle u v = map2 (\<lambda>a b. a \<le> b) u v"

text \<open>\<open>np.count_nonzero(mask)\<close> and the boolean-mask selection \<open>a[mask]\<close>.\<close>

definition count_nonzero :: "bool list \<Rightarrow> nat" where
  "count_nonzero msk = length (filter id msk)"

definition select :: "bool list \<Rightarrow> 'a list \<Rightarrow> 'a list" where
  "select msk xs = map snd (filter fst (zip msk xs))"

text \<open>
  \<open>a.fill(0.0); a[mask] = vals\<close>: the entries under the mask take the values in order,
  the others are zero.
\<close>

fun fill0_assign :: "bool list \<Rightarrow> vec \<Rightarrow> vec" where
  "fill0_assign [] vals = []"
| "fill0_assign (True # msk) (v # vals) = v # fill0_assign msk vals"
| "fill0_assign (True # msk) [] = 0 # fill0_assign msk []"
| "fill0_assign (False # msk) vals = 0 # fill0_assign msk vals"

text \<open>The slice \<open>a[i:j]\<close> for \<open>0 \<le> i \<le> j\<close>.\<close>

definition slice :: "nat \<Rightarrow> nat \<Rightarrow> 'a list \<Rightarrow> 'a list" where
  "slice i j xs = take (j - i) (drop i xs)"

text \<open>\<open>np.eye(n)\<close>.\<close>

definition eye :: "nat \<Rightarrow> mat" where
  "eye k = map (\<lambda>i. map (\<lambda>j. if i = j then 1 else 0) [0..<k]) [0..<k]"

text \<open>
  \<open>np.sqrt\<close>: a negative argument gives NaN (and a warning), not a real number; NaN
  is \<open>None\<close>.
\<close>

definition np_sqrt :: "real \<Rightarrow> real option" where
  "np_sqrt x = (if x < 0 then None else Some (sqrt x))"

text \<open>
  The product of two double-precision numbers where its underflow matters: a product of
  magnitude at most \<open>2\<^sup>-\<^sup>1\<^sup>0\<^sup>7\<^sup>5\<close>, half the smallest positive double-precision
  number, is rounded to zero. The rounding of the other products is not modelled; a
  product of larger magnitude is rounded to a number that is not zero and at least half
  as large.
\<close>

definition half_min_double :: real where
  "half_min_double = 1 / 2 ^ 1075"

definition np_mul :: "real \<Rightarrow> real \<Rightarrow> real" where
  "np_mul x y = (if \<bar>x * y\<bar> \<le> half_min_double then 0 else x * y)"

text \<open>\<open>np.finfo(float).tiny\<close> and \<open>np.finfo(float).eps\<close> of IEEE double precision.\<close>

definition tiny :: real where
  "tiny = 1 / 2 ^ 1022"

definition eps :: real where
  "eps = 1 / 2 ^ 52"

subsection \<open>The problem, the models, the options and the external solvers\<close>

text \<open>
  The class \<open>Problem\<close> (cobyqa/problem.py) is not among the sources; the framework reads
  the attributes below (\<open>xl\<close> and \<open>xu\<close> are \<open>bounds.xl\<close> and \<open>bounds.xu\<close>,
  \<open>linear_ub_a\<close> is \<open>linear_ub.a\<close>, and so on). \<open>ptype\<close> is the attribute \<open>type\<close>, a string; \<open>pb_fun\<close>,
  \<open>pb_cub\<close>, \<open>pb_ceq\<close> are the black-box objective and constraint functions and
  \<open>resid\<close> is the method \<open>resid(x, cub_val, ceq_val)\<close>.
\<close>

record problem =
  n :: nat
  m_linear_ub :: nat
  m_linear_eq :: nat
  m_nonlinear_ub :: nat
  m_nonlinear_eq :: nat
  xl :: vec
  xu :: vec
  linear_ub_a :: mat
  linear_ub_b :: vec
  linear_eq_a :: mat
  linear_eq_b :: vec
  ptype :: string
  pb_fun :: "vec \<Rightarrow> real"
  pb_cub :: "vec \<Rightarrow> vec"
  pb_ceq :: "vec \<Rightarrow> vec"
  resid :: "vec \<Rightarrow> vec \<Rightarrow> vec \<Rightarrow> real"

text \<open>
  The class \<open>Models\<close> (cobyqa/models.py) is not among the sources either. The record
  holds the interpolation set (\<open>x_base\<close>, and \<open>xpt\<close> as the list of its columns, one per
  interpolation point), the stored values at the interpolation points (\<open>cub_val\<close> and
  \<open>ceq_val\<close> as lists of rows, one per interpolation point) and the model oracles the
  framework calls. \<open>cub_grad\<close>, \<open>ceq_grad\<close>, \<open>cub_hess_prod\<close> and \<open>ceq_hess_prod\<close>
  return one row per constraint.
\<close>

record models =
  x_base :: vec
  xpt :: "vec list"
  fun_val :: vec
  cub_val :: "vec list"
  ceq_val :: "vec list"
  fun_grad :: "vec \<Rightarrow> vec"
  fun_hess_prod :: "vec \<Rightarrow> vec"
  cub :: "vec \<Rightarrow> vec"
  cub_grad :: "vec \<Rightarrow> mat"
  cub_hess_prod :: "vec \<Rightarrow> mat"
  ceq :: "vec \<Rightarrow> vec"
  ceq_grad :: "vec \<Rightarrow> mat"
  ceq_hess_prod :: "vec \<Rightarrow> mat"

definition npt :: "models \<Rightarrow> nat" where
  "npt ms = length (xpt ms)"

text \<open>
  Modelled from the spec: \<open>Interpolation.point(k)\<close> of cobyqa/models.py, the \<open>k\<close>-th
  interpolation point \<open>x_base + xpt[:, k]\<close>, relative to the origin.
\<close>

definition point :: "models \<Rightarrow> nat \<Rightarrow> vec" where
  "point ms k = vadd (x_base ms) (xpt ms ! k)"

text \<open>
  Modelled from the spec: \<open>Models.cub_grad(x, mask)\<close> of cobyqa/models.py, the rows of the
  gradient of the nonlinear inequality models at \<open>x\<close> for the constraints under the mask.
\<close>

definition cub_grad_mask :: "models \<Rightarrow> vec \<Rightarrow> bool list \<Rightarrow> mat" where
  "cub_grad_mask ms x msk = select msk (cub_grad ms x)"

text \<open>The options of the solver: a dictionary with the keys the framework reads.\<close>

record options =
  radius_init :: real
  radius_final :: real
  debug :: bool

text \<open>
  The subproblem solvers (cobyqa/subsolvers), \<open>get_arrays_tol\<close> (cobyqa/utils.py) and
  SciPy's \<open>lsq_linear\<close> are external to the source file; they are parameters of the
  model. The radius of the two tangential solvers is the result of \<open>np.sqrt\<close>.
  \<open>lsq_linear a b lb\<close> stands for
  \<open>lsq_linear(a, b, bounds=(lb, np.inf), method='bvls').x\<close>, a lower bound of
  \<open>-np.inf\<close> being \<open>None\<close>.
\<close>

record externals =
  normal_byrd_omojokun ::
    "mat \<Rightarrow> vec \<Rightarrow> mat \<Rightarrow> vec \<Rightarrow> vec \<Rightarrow> vec \<Rightarrow> real \<Rightarrow> bool \<Rightarrow> vec"
  tangential_byrd_omojokun ::
    "vec \<Rightarrow> (vec \<Rightarrow> vec) \<Rightarrow> vec \<Rightarrow> vec \<Rightarrow> real option \<Rightarrow> bool \<Rightarrow> vec"
  constrained_tangential_byrd_omojokun ::
    "vec \<Rightarrow> (vec \<Rightarrow> vec) \<Rightarrow> vec \<Rightarrow> vec \<Rightarrow> mat \<Rightarrow> vec \<Rightarrow> mat \<Rightarrow> real option \<Rightarrow> bool \<Rightarrow> vec"
  get_arrays_tol :: "vec list \<Rightarrow> real"
  lsq_linear :: "mat \<Rightarrow> vec \<Rightarrow> real option list \<Rightarrow> vec"

subsection \<open>The state of the framework\<close>

record trust_region =
  pb :: problem
  models :: models
  penalty :: real
  best_index :: nat
  lm_linear_ub :: vec
  lm_linear_eq :: vec
  lm_nonlinear_ub :: vec
  lm_nonlinear_eq :: vec
  resolution :: real
  radius :: real

text \<open>The property setter \<open>radius\<close>: assign, then snap to the resolution.\<close>

definition set_radius :: "real \<Rightarrow> trust_region \<Rightarrow> trust_region" where
  "set_radius r st =
     (let st1 = st\<lparr>radius := r\<rparr>
      in if radius st1 \<le> 1.4 * resolution st1 then st1\<lparr>radius := resolution st1\<rparr> else st1)"

text \<open>The property setter \<open>resolution\<close>.\<close>

definition set_resolution :: "real \<Rightarrow> trust_region \<Rightarrow> trust_region" where
  "set_resolution r st = st\<lparr>resolution := r\<rparr>"

definition x_best :: "trust_region \<Rightarrow> vec" where
  "x_best st = point (models st) (best_index st)"

definition fun_best :: "trust_region \<Rightarrow> real" where
  "fun_best st = fun_val (models st) ! best_index st"

definition cub_best :: "trust_region \<Rightarrow> vec" where
  "cub_best st = cub_val (models st) ! best_index st"

definition ceq_best :: "trust_region \<Rightarrow> vec" where
  "ceq_best st = ceq_val (models st) ! best_index st"

subsection \<open>Radius and resolution\<close>

definition update_radius :: "vec \<Rightarrow> real \<Rightarrow> trust_region \<Rightarrow> trust_region" where
  "update_radius step ratio st =
     (let s_norm = linalg_norm step
      in if ratio \<le> 0.1 then set_radius (radius st * 0.5) st
         else if ratio \<le> 0.7 then set_radius (max (0.5 * radius st) s_norm) st
         else set_radius (min (sqrt 2 * radius st) (max (0.5 * radius st) (2 * s_norm))) st)"

text \<open>
  In the second branch the resolution and the final resolution are positive, so that
  the argument of \<open>np.sqrt\<close> is not negative and the square root is a real number
  (lemma \<open>reduce_resolution_sqrt_arg\<close> below); their product underflows to zero when
  both are very small, and the new resolution is then zero. The radius is assigned
  through the attribute \<open>_radius\<close>, not through the setter.
\<close>

definition reduce_resolution :: "options \<Rightarrow> trust_region \<Rightarrow> trust_region" where
  "reduce_resolution opts st =
     (let st1 =
            (if 250 * radius_final opts < resolution st
               then set_resolution (resolution st * 0.1) st
             else if 16 * radius_final opts < resolution st
               then set_resolution (sqrt (np_mul (resolution st) (radius_final opts))) st
             else set_resolution (radius_final opts) st);
          st2 = st1\<lparr>radius := radius st1 * 0.5\<rparr>
      in st2\<lparr>radius := max (radius st2) (resolution st2)\<rparr>)"

subsection \<open>The Lagrangian model and the SQP subproblem\<close>

text \<open>
  The number of columns of a product \<open>w @ a\<close> is the number of variables \<open>n\<close> of the
  problem: the models return matrices of shape \<open>(m, n)\<close>.
\<close>

definition lag_model_hess_prod :: "trust_region \<Rightarrow> vec \<Rightarrow> vec" where
  "lag_model_hess_prod st v =
     vadd (vadd (fun_hess_prod (models st) v)
                (vecmat (n (pb st)) (lm_nonlinear_ub st) (cub_hess_prod (models st) v)))
          (vecmat (n (pb st)) (lm_nonlinear_eq st) (ceq_hess_prod (models st) v))"

definition sqp_fun :: "trust_region \<Rightarrow> vec \<Rightarrow> real" where
  "sqp_fun st step =
     dot step (vadd (fun_grad (models st) (x_best st)) (smul 0.5 (lag_model_hess_prod st step)))"

definition sqp_cub :: "trust_region \<Rightarrow> vec \<Rightarrow> vec" where
  "sqp_cub st step =
     vadd (cub (models st) (x_best st)) (matvec (cub_grad (models st) (x_best st)) step)"

definition sqp_ceq :: "trust_region \<Rightarrow> vec \<Rightarrow> vec" where
  "sqp_ceq st step =
     vadd (ceq (models st) (x_best st)) (matvec (ceq_grad (models st) (x_best st)) step)"

subsection \<open>The merit function\<close>

text \<open>An argument that is \<open>None\<close> is replaced by the value of the black box at \<open>x\<close>.\<close>

definition merit :: "trust_region \<Rightarrow> vec \<Rightarrow> real option \<Rightarrow> vec option \<Rightarrow> vec option \<Rightarrow> real" where
  "merit st x fv cubv ceqv =
     (let fv1 = (case fv of None \<Rightarrow> pb_fun (pb st) x | Some f \<Rightarrow> f);
          cubv1 = (case cubv of None \<Rightarrow> pb_cub (pb st) x | Some c \<Rightarrow> c);
          ceqv1 = (case ceqv of None \<Rightarrow> pb_ceq (pb st) x | Some c \<Rightarrow> c);
          m_val = fv1
      in if penalty st > 0 then
           (let c_val = vsub (xl (pb st)) x @ vsub x (xu (pb st))
                          @ vsub (matvec (linear_ub_a (pb st)) x) (linear_ub_b (pb st)) @ cubv1;
                c_val1 = maximum0 c_val;
                c_val2 = c_val1 @ vabs (vsub (matvec (linear_eq_a (pb st)) x) (linear_eq_b (pb st)))
                           @ vabs ceqv1
            in m_val + penalty st * linalg_norm c_val2)
         else m_val)"

subsection \<open>Linearizations of the constraints\<close>

definition get_constraint_linearizations :: "trust_region \<Rightarrow> vec \<Rightarrow> mat \<times> vec \<times> mat \<times> vec" where
  "get_constraint_linearizations st x =
     (let cubg = cub_grad (models st) x;
          aub = linear_ub_a (pb st) @ cubg;
          bub = vsub (linear_ub_b (pb st)) (matvec (linear_ub_a (pb st)) x)
                  @ vneg (cub (models st) x);
          ceqg = ceq_grad (models st) x;
          aeq = linear_eq_a (pb st) @ ceqg;
          beq = vsub (linear_eq_b (pb st)) (matvec (linear_eq_a (pb st)) x)
                  @ vneg (ceq (models st) x)
      in (aub, bub, aeq, beq))"

subsection \<open>The composite trust-region step\<close>

text \<open>
  A method that calls subproblem solvers returns, with its result, the calls it made
  (each with its arguments, in order) and the warnings of the debug mode (in the order
  in which they are emitted).
\<close>

datatype solver_call =
    Normal_call mat vec mat vec vec vec real bool
  | Tangential_call vec "vec \<Rightarrow> vec" vec vec "real option" bool
  | Constrained_tangential_call vec "vec \<Rightarrow> vec" vec vec mat vec mat "real option" bool

definition bound_warning :: "externals \<Rightarrow> vec \<Rightarrow> vec \<Rightarrow> vec \<Rightarrow> bool" where
  "bound_warning ext bl bu s =
     (let tol = get_arrays_tol ext [bl, bu]
      in any_lt (map (\<lambda>a. a + tol) s) bl \<or> any_lt bu (map (\<lambda>a. a - tol) s))"

definition get_trust_region_step ::
  "externals \<Rightarrow> options \<Rightarrow> trust_region \<Rightarrow> solver_call list \<times> string list \<times> vec \<times> vec" where
  "get_trust_region_step ext opts st =
     (case get_constraint_linearizations st (x_best st) of (aub, bub, aeq, beq) \<Rightarrow>
        let bl = vsub (xl (pb st)) (x_best st);
            bu = vsub (xu (pb st)) (x_best st);
            call1 = Normal_call aub bub aeq beq bl bu (0.8 * radius st) (debug opts);
            normal_step =
              normal_byrd_omojokun ext aub bub aeq beq bl bu (0.8 * radius st) (debug opts);
            w1 = (if debug opts then
                    (if bound_warning ext bl bu normal_step
                       then [''the normal step does not respect the bound constraint.''] else [])
                    @ (if linalg_norm normal_step > 1.1 * 0.8 * radius st
                       then [''the normal step does not respect the trust-region constraint.'']
                       else [])
                  else []);
            rad = np_sqrt ((radius st) ^ 2 - dot normal_step normal_step);
            bl1 = vsub bl normal_step;
            bu1 = vsub bu normal_step;
            bub1 = maximum0 (vsub bub (matvec aub normal_step));
            g_best = vadd (fun_grad (models st) (x_best st)) (lag_model_hess_prod st normal_step);
            (call2, tangential_step) =
              (if ptype (pb st) \<in> set [''unconstrained'', ''bound-constrained'']
                 then (Tangential_call g_best (lag_model_hess_prod st) bl1 bu1 rad (debug opts),
                       tangential_byrd_omojokun ext g_best (lag_model_hess_prod st) bl1 bu1 rad
                         (debug opts))
               else (Constrained_tangential_call g_best (lag_model_hess_prod st) bl1 bu1
                       aub bub1 aeq rad (debug opts),
                     constrained_tangential_byrd_omojokun ext g_best (lag_model_hess_prod st)
                       bl1 bu1 aub bub1 aeq rad (debug opts)));
            w2 = (if debug opts then
                    (if bound_warning ext bl1 bu1 tangential_step
                       then [''The tangential step does not respect the bound constraints.'']
                       else [])
                    @ (if linalg_norm (vadd normal_step tangential_step) > 1.1 * sqrt 2 * radius st
                       then [''The trial step does not respect the trust-region constraint.'']
                       else [])
                  else [])
        in ([call1, call2], w1 @ w2, normal_step, tangential_step))"

subsection \<open>The second-order correction step\<close>

definition get_second_order_correction_step ::
  "externals \<Rightarrow> vec \<Rightarrow> options \<Rightarrow> trust_region \<Rightarrow> solver_call list \<times> string list \<times> vec" where
  "get_second_order_correction_step ext step opts st =
     (case get_constraint_linearizations st (x_best st) of (aub, bub, aeq, beq) \<Rightarrow>
        let bl = vsub (xl (pb st)) (x_best st);
            bu = vsub (xu (pb st)) (x_best st);
            rad = dot step step;
            soc_step = normal_byrd_omojokun ext aub bub aeq beq bl bu rad (debug opts);
            w = (if debug opts then
                   (if bound_warning ext bl bu soc_step
                      then [''The second-order correction step does not respect the bound constraints.'']
                      else [])
                   @ (if linalg_norm soc_step > 1.1 * rad
                      then [''The second-order correction step does not respect the trust-region constraint.'']
                      else [])
                 else [])
        in ([Normal_call aub bub aeq beq bl bu rad (debug opts)], w, soc_step))"

subsection \<open>The reduction ratio\<close>

definition merit_old :: "trust_region \<Rightarrow> real" where
  "merit_old st = merit st (x_best st) (Some (fun_best st)) (Some (cub_best st)) (Some (ceq_best st))"

definition merit_new :: "trust_region \<Rightarrow> vec \<Rightarrow> real \<Rightarrow> vec \<Rightarrow> vec \<Rightarrow> real" where
  "merit_new st step fv cubv ceqv = merit st (vadd (x_best st) step) (Some fv) (Some cubv) (Some ceqv)"

definition merit_model_old :: "trust_region \<Rightarrow> real" where
  "merit_model_old st =
     merit st (x_best st) (Some 0) (Some (cub (models st) (x_best st)))
       (Some (ceq (models st) (x_best st)))"

definition merit_model_new :: "trust_region \<Rightarrow> vec \<Rightarrow> real" where
  "merit_model_new st step =
     merit st (vadd (x_best st) step) (Some (sqp_fun st step)) (Some (sqp_cub st step))
       (Some (sqp_ceq st step))"

definition get_reduction_ratio :: "trust_region \<Rightarrow> vec \<Rightarrow> real \<Rightarrow> vec \<Rightarrow> vec \<Rightarrow> real" where
  "get_reduction_ratio st step fv cubv ceqv =
     (if \<bar>merit_model_old st - merit_model_new st step\<bar>
           > tiny * \<bar>merit_old st - merit_new st step fv cubv ceqv\<bar>
        then (merit_old st - merit_new st step fv cubv ceqv)
               / \<bar>merit_model_old st - merit_model_new st step\<bar>
      else - 1)"

subsection \<open>The best interpolation point\<close>

text \<open>
  The loop of \<open>set_best_index\<close> over \<open>range(npt)\<close>. The index skipped is the attribute
  \<open>best_index\<close>, which keeps its value during the loop; the tolerance is computed once,
  before the loop. The accumulator holds the local variables \<open>best_index\<close>, \<open>m_best\<close>
  and \<open>r_best\<close>.
\<close>

definition merit_at :: "trust_region \<Rightarrow> nat \<Rightarrow> real" where
  "merit_at st k =
     merit st (point (models st) k) (Some (fun_val (models st) ! k))
       (Some (cub_val (models st) ! k)) (Some (ceq_val (models st) ! k))"

definition resid_at :: "trust_region \<Rightarrow> nat \<Rightarrow> real" where
  "resid_at st k =
     resid (pb st) (point (models st) k) (cub_val (models st) ! k) (ceq_val (models st) ! k)"

fun best_loop :: "trust_region \<Rightarrow> real \<Rightarrow> nat list \<Rightarrow> nat \<times> real \<times> real \<Rightarrow> nat \<times> real \<times> real" where
  "best_loop st tol [] acc = acc"
| "best_loop st tol (k # ks) (bi, m_best, r_best) =
     (if k \<noteq> best_index st then
        (let m_val = merit_at st k;
             r_val = resid_at st k
         in if m_val < m_best \<or> (m_val < m_best + tol \<and> r_val < r_best)
              then best_loop st tol ks (k, m_val, r_val)
            else best_loop st tol ks (bi, m_best, r_best))
      else best_loop st tol ks (bi, m_best, r_best))"

text \<open>
  \<open>max(self.models.interpolation.xpt.shape)\<close> is the larger of the number of variables
  and the number of interpolation points.
\<close>

definition best_tol :: "trust_region \<Rightarrow> real" where
  "best_tol st =
     10 * eps * real (max (n (pb st)) (npt (models st)))
       * max \<bar>merit_at st (best_index st)\<bar> 1"

definition set_best_index :: "trust_region \<Rightarrow> trust_region" where
  "set_best_index st =
     (let bi = best_index st;
          m_best = merit_at st bi;
          r_best = resid_at st bi;
          tol = best_tol st
      in st\<lparr>best_index := fst (best_loop st tol [0..<npt (models st)] (bi, m_best, r_best))\<rparr>)"

subsection \<open>The penalty parameter\<close>

definition viol_diff :: "trust_region \<Rightarrow> vec \<Rightarrow> real" where
  "viol_diff st step =
     (case get_constraint_linearizations st (x_best st) of (aub, bub, aeq, beq) \<Rightarrow>
        linalg_norm (maximum0 (vneg bub) @ beq)
          - linalg_norm (maximum0 (vsub (matvec aub step) bub) @ vsub (matvec aeq step) beq))"

definition sqp_var :: "trust_region \<Rightarrow> vec \<Rightarrow> real" where
  "sqp_var st step =
     dot step (vadd (fun_grad (models st) (x_best st)) (smul 0.5 (lag_model_hess_prod st step)))"

definition penalty_threshold :: "trust_region \<Rightarrow> vec \<Rightarrow> real" where
  "penalty_threshold st step =
     (let threshold =
            linalg_norm (lm_linear_ub st @ lm_linear_eq st @ lm_nonlinear_ub st @ lm_nonlinear_eq st)
      in if \<bar>viol_diff st step\<bar> > tiny * \<bar>sqp_var st step\<bar>
           then max threshold (sqp_var st step / viol_diff st step)
         else threshold)"

definition increase_penalty :: "vec \<Rightarrow> trust_region \<Rightarrow> trust_region \<times> bool" where
  "increase_penalty step st =
     (let threshold = penalty_threshold st step;
          best_index_save = best_index st;
          st1 = (if penalty st \<le> 1.5 * threshold
                   then set_best_index (st\<lparr>penalty := 2 * threshold\<rparr>)
                 else st)
      in (st1, best_index_save = best_index st1))"

text \<open>
  \<open>_get_low_penalty\<close>; the result \<open>np.inf\<close> is \<open>None\<close>. Each row of \<open>r_val\<close> belongs to
  one interpolation point; the minima and maxima are taken along the columns.
\<close>

definition get_low_penalty :: "trust_region \<Rightarrow> real option" where
  "get_low_penalty st =
     (let pts = map (\<lambda>c. vadd (x_base (models st)) c) (xpt (models st));
          r_val_ub = map2 (\<lambda>x cv. vsub (matvec (linear_ub_a (pb st)) x) (linear_ub_b (pb st)) @ cv)
                       pts (cub_val (models st));
          r_eq = map (\<lambda>x. vsub (matvec (linear_eq_a (pb st)) x) (linear_eq_b (pb st))) pts;
          r_val_eq = map2 (\<lambda>e ce. e @ vneg e @ ce @ vneg ce) r_eq (ceq_val (models st));
          r_val = map2 (@) r_val_ub r_val_eq;
          c_min = map (\<lambda>col. Min (set col)) (transpose r_val);
          c_max = map (\<lambda>col. Max (set col)) (transpose r_val);
          indices = map2 (\<lambda>a b. a < 2 * b) c_min c_max
      in if list_ex id indices then
           (let f_min = Min (set (fun_val (models st)));
                f_max = Max (set (fun_val (models st)));
                c_min_neg = map (min 0) (select indices c_min);
                c_diff = Min (set (vsub (select indices c_max) c_min_neg))
            in if c_diff > tiny * (f_max - f_min) then Some ((f_max - f_min) / c_diff) else None)
         else Some 0)"

definition decrease_penalty :: "trust_region \<Rightarrow> trust_region" where
  "decrease_penalty st =
     (case get_low_penalty st of
        None \<Rightarrow> st
      | Some low \<Rightarrow> st\<lparr>penalty := min (penalty st) low\<rparr>)"

subsection \<open>The Lagrange multipliers\<close>

text \<open>
  \<open>c_jac.size\<close> is the number of entries of the stacked matrix. When it is zero the
  method has no effect: the four arrays of multipliers keep their contents. The array
  \<open>xl_lm\<close> has one entry per row of \<open>c_jac\<close>; \<open>lsq_linear\<close> returns one value per row
  of \<open>c_jac\<close>, so the slices have the sizes of the arrays they are assigned to.
\<close>

definition active_jacobian :: "trust_region \<Rightarrow> mat" where
  "active_jacobian st =
     (let incl_linear = vge (matvec (linear_ub_a (pb st)) (x_best st)) (linear_ub_b (pb st));
          incl_nonlinear = map (\<lambda>c. c \<ge> 0) (cub_best st);
          incl_xl = vge (xl (pb st)) (x_best st);
          incl_xu = vle (xu (pb st)) (x_best st);
          identity = eye (n (pb st))
      in map vneg (select incl_xl identity)
           @ select incl_xu identity
           @ select incl_linear (linear_ub_a (pb st))
           @ cub_grad_mask (models st) (x_best st) incl_nonlinear
           @ linear_eq_a (pb st)
           @ ceq_grad (models st) (x_best st))"

definition set_multipliers :: "externals \<Rightarrow> trust_region \<Rightarrow> trust_region" where
  "set_multipliers ext st =
     (let incl_linear = vge (matvec (linear_ub_a (pb st)) (x_best st)) (linear_ub_b (pb st));
          incl_nonlinear = map (\<lambda>c. c \<ge> 0) (cub_best st);
          incl_xl = vge (xl (pb st)) (x_best st);
          incl_xu = vle (xu (pb st)) (x_best st);
          m_linear = count_nonzero incl_linear;
          m_nonlinear = count_nonzero incl_nonlinear;
          m_xl = count_nonzero incl_xl;
          m_xu = count_nonzero incl_xu;
          c_jac = active_jacobian st
      in if length (concat c_jac) > 0 then
           (let g_best = fun_grad (models st) (x_best st);
                m_ub = m_xl + m_xu + m_linear + m_nonlinear;
                xl_lm = replicate (min m_ub (length c_jac)) (Some 0)
                          @ replicate (length c_jac - m_ub) None;
                res_x = lsq_linear ext (transpose c_jac) (vneg g_best) xl_lm
            in st\<lparr>lm_linear_ub :=
                     fill0_assign incl_linear (slice (m_xl + m_xu) (m_xl + m_xu + m_linear) res_x),
                   lm_nonlinear_ub :=
                     fill0_assign incl_nonlinear (slice (m_xl + m_xu + m_linear) m_ub res_x),
                   lm_linear_eq := slice m_ub (m_ub + m_linear_eq (pb st)) res_x,
                   lm_nonlinear_eq := drop (m_ub + m_linear_eq (pb st)) res_x\<rparr>)
         else st)"

subsection \<open>The constructor\<close>

text \<open>
  \<open>np.empty(k)\<close> returns an array of \<open>k\<close> entries whose contents are whatever the
  memory holds; the contents are a parameter of the model.
\<close>

record uninitialized =
  mem_linear_ub :: "nat \<Rightarrow> real"
  mem_linear_eq :: "nat \<Rightarrow> real"
  mem_nonlinear_ub :: "nat \<Rightarrow> real"
  mem_nonlinear_eq :: "nat \<Rightarrow> real"

definition np_empty :: "(nat \<Rightarrow> real) \<Rightarrow> nat \<Rightarrow> vec" where
  "np_empty mem k = map mem [0..<k]"

text \<open>
  \<open>__init__\<close>. The argument \<open>ms\<close> is the result of \<open>Models(pb, options)\<close>. The attributes
  \<open>_resolution\<close> and \<open>_radius\<close> are created by the last two assignments; no method
  called before reads them, and they are \<open>0\<close> until then.
\<close>

definition init :: "externals \<Rightarrow> uninitialized \<Rightarrow> problem \<Rightarrow> models \<Rightarrow> options \<Rightarrow> trust_region" where
  "init ext mem p ms opts =
     (let st0 = \<lparr>pb = p, models = ms, penalty = 0, best_index = 0,
                 lm_linear_ub = [], lm_linear_eq = [], lm_nonlinear_ub = [],
                 lm_nonlinear_eq = [], resolution = 0, radius = 0\<rparr>;
          st1 = st0\<lparr>penalty := (case get_low_penalty st0 of None \<Rightarrow> 0 | Some v \<Rightarrow> v)\<rparr>;
          st2 = set_best_index (st1\<lparr>best_index := 0\<rparr>);
          st3 = st2\<lparr>lm_linear_ub := np_empty (mem_linear_ub mem) (m_linear_ub p),
                    lm_linear_eq := np_empty (mem_linear_eq mem) (m_linear_eq p),
                    lm_nonlinear_ub := np_empty (mem_nonlinear_ub mem) (m_nonlinear_ub p),
                    lm_nonlinear_eq := np_empty (mem_nonlinear_eq mem) (m_nonlinear_eq p)\<rparr>;
          st4 = set_multipliers ext st3;
          st5 = st4\<lparr>resolution := radius_init opts\<rparr>
      in st5\<lparr>radius := resolution st5\<rparr>)"

subsection \<open>Sequences of calls that change the radius and the resolution\<close>

datatype radius_call = Update_radius vec real | Reduce_resolution


text \<open>
  A call of \<open>reduce_resolution\<close> underflows when it takes the branch of the square
  root and the product of the resolution and the final resolution is rounded to zero;
  a sequence of calls is free of underflow when none of its calls underflows.
\<close>

definition sqrt_underflows :: "options \<Rightarrow> trust_region \<Rightarrow> bool" where
  "sqrt_underflows opts st \<longleftrightarrow>
     \<not> 250 * radius_final opts < resolution st \<and> 16 * radius_final opts < resolution st
     \<and> \<bar>resolution st * radius_final opts\<bar> \<le> half_min_double"

fun no_underflow :: "options \<Rightarrow> radius_call list \<Rightarrow> trust_region \<Rightarrow> bool" where
  "no_underflow opts [] st = True"
| "no_underflow opts (Update_radius step ratio # cs) st =
     no_underflow opts cs (update_radius step ratio st)"
| "no_underflow opts (Reduce_resolution # cs) st =
     (\<not> sqrt_underflows opts st \<and> no_underflow opts cs (reduce_resolution opts st))"

subsection \<open>Contracts of the external solvers\<close>

text \<open>
  The normal Byrd-Omojokun solver returns a step inside the trust region it is given.
\<close>

definition normal_contract :: "externals \<Rightarrow> bool" where
  "normal_contract ext =
     (\<forall>aub bub aeq beq bl bu r d.
        0 \<le> r \<longrightarrow> linalg_norm (normal_byrd_omojokun ext aub bub aeq beq bl bu r d) \<le> r)"

text \<open>
  \<open>lsq_linear\<close> returns one value per bound, and each value respects its lower bound.
\<close>

definition lsq_contract :: "externals \<Rightarrow> bool" where
  "lsq_contract ext =
     (\<forall>a b lb. length (lsq_linear ext a b lb) = length lb
        \<and> (\<forall>i < length lb. \<forall>l. lb ! i = Some l \<longrightarrow> l \<le> lsq_linear ext a b lb ! i))"

subsection \<open>The comparison of the best index\<close>

text \<open>
  The comparison of the loop of \<open>set_best_index\<close>: the point of index \<open>k\<close> beats the
  point of index \<open>j\<close> when its merit value is smaller, or is below the other's plus
  the tolerance while its residual is smaller. A state is beaten when some other
  interpolation point beats its best point, for the tolerance of a call in that state.
\<close>

definition beats :: "trust_region \<Rightarrow> real \<Rightarrow> nat \<Rightarrow> nat \<Rightarrow> bool" where
  "beats st tol k j \<longleftrightarrow>
     merit_at st k < merit_at st j
     \<or> (merit_at st k < merit_at st j + tol \<and> resid_at st k < resid_at st j)"

definition beaten :: "trust_region \<Rightarrow> bool" where
  "beaten st =
     list_ex (\<lambda>k. k \<noteq> best_index st \<and> beats st (best_tol st) k (best_index st))
       [0..<npt (models st)]"

text \<open>
  The tolerance of \<open>set_best_index\<close> when the call starts at the index \<open>s\<close>, and the
  states in which the tie-breaking clause decides between equal merit values only:
  whenever a point has a smaller residual than another and a merit value below the
  other's plus a tolerance, its merit value is not the larger one.
\<close>

definition tol_from :: "trust_region \<Rightarrow> nat \<Rightarrow> real" where
  "tol_from st s =
     10 * eps * real (max (n (pb st)) (npt (models st))) * max \<bar>merit_at st s\<bar> 1"

definition tie_break_exact :: "trust_region \<Rightarrow> bool" where
  "tie_break_exact st =
     list_all (\<lambda>s. list_all (\<lambda>j. list_all (\<lambda>k.
         resid_at st k < resid_at st j \<and> merit_at st k < merit_at st j + tol_from st s
           \<longrightarrow> merit_at st k \<le> merit_at st j)
       [0..<npt (models st)]) [0..<npt (models st)]) [0..<npt (models st)]"

text \<open>The lexicographic order of the merit value and the residual.\<close>

definition lex_le :: "trust_region \<Rightarrow> nat \<Rightarrow> nat \<Rightarrow> bool" where
  "lex_le st a c \<longleftrightarrow>
     merit_at st a < merit_at st c
     \<or> (merit_at st a = merit_at st c \<and> resid_at st a \<le> resid_at st c)"

subsection \<open>Small instances\<close>

text \<open>
  A problem in one variable \<open>x\<close> with the objective function \<open>x\<^sup>2\<close>, the bounds
  \<open>-10 \<le> x \<le> 10\<close> and the linear inequality constraint \<open>x \<le> 0\<close>; its residual
  is the violation of the linear constraint (the bounds hold at all the points used).
\<close>

definition ex_pb :: problem where
  "ex_pb = \<lparr>n = 1, m_linear_ub = 1, m_linear_eq = 0, m_nonlinear_ub = 0, m_nonlinear_eq = 0,
            xl = [- 10], xu = [10], linear_ub_a = [[1]], linear_ub_b = [0],
            linear_eq_a = [], linear_eq_b = [], ptype = ''linearly constrained'',
            pb_fun = (\<lambda>x. dot x x), pb_cub = (\<lambda>x. []), pb_ceq = (\<lambda>x. []),
            resid = (\<lambda>x cubv ceqv. max 0 (dot [1] x))\<rparr>"

text \<open>
  The models of the objective function on the interpolation points \<open>-5\<close>, \<open>-4\<close> and
  \<open>-6\<close> (the initial point \<open>-5\<close> and the points at the distance 1 from it), at
  which the linear constraint and the bounds are inactive.
\<close>

definition ex_models :: models where
  "ex_models = \<lparr>x_base = [- 5], xpt = [[0], [1], [- 1]], fun_val = [25, 16, 36],
                cub_val = [[], [], []], ceq_val = [[], [], []],
                fun_grad = (\<lambda>x. smul 2 x), fun_hess_prod = (\<lambda>v. smul 2 v),
                cub = (\<lambda>x. []), cub_grad = (\<lambda>x. []), cub_hess_prod = (\<lambda>v. []),
                ceq = (\<lambda>x. []), ceq_grad = (\<lambda>x. []), ceq_hess_prod = (\<lambda>v. [])\<rparr>"

text \<open>
  The same constraints with the objective function \<open>-2 x - 1\<close>, and its models on
  the interpolation points \<open>1\<close>, \<open>3\<close> and \<open>-1\<close> (the initial point \<open>1\<close> and the
  points at the distance 2 from it); the linear constraint is active (and violated) at
  the first two points and inactive at the third.
\<close>

definition ex_pb_act :: problem where
  "ex_pb_act = ex_pb\<lparr>pb_fun := (\<lambda>x. dot [- 2] x - 1)\<rparr>"

definition ex_models_act :: models where
  "ex_models_act = \<lparr>x_base = [1], xpt = [[0], [2], [- 2]], fun_val = [- 3, - 7, 1],
                cub_val = [[], [], []], ceq_val = [[], [], []],
                fun_grad = (\<lambda>x. [- 2]), fun_hess_prod = (\<lambda>v. [0]),
                cub = (\<lambda>x. []), cub_grad = (\<lambda>x. []), cub_hess_prod = (\<lambda>v. []),
                ceq = (\<lambda>x. []), ceq_grad = (\<lambda>x. []), ceq_hess_prod = (\<lambda>v. [])\<rparr>"

text \<open>
  The same constraints with the objective function
  \<open>(2 - 5 eps) x\<^sup>2 - (3 + 5 eps) x\<close>, and its models on the interpolation points
  \<open>0\<close>, \<open>1\<close> and \<open>-1\<close>, with the objective values \<open>0\<close>, \<open>-1 - 10 eps\<close> and
  \<open>5\<close>: with the penalty parameter \<open>1\<close> the merit values of the first two points
  differ by less than the tolerance, and the point with the smaller merit value has the
  larger residual.
\<close>

definition ex_pb_tie :: problem where
  "ex_pb_tie = ex_pb\<lparr>pb_fun := (\<lambda>x. (2 - 5 * eps) * dot x x - (3 + 5 * eps) * dot [1] x)\<rparr>"

definition ex_models_tie :: models where
  "ex_models_tie = \<lparr>x_base = [0], xpt = [[0], [1], [- 1]], fun_val = [0, - 1 - 10 * eps, 5],
                cub_val = [[], [], []], ceq_val = [[], [], []],
                fun_grad = (\<lambda>x. vsub (smul (2 * (2 - 5 * eps)) x) [3 + 5 * eps]),
                fun_hess_prod = (\<lambda>v. smul (2 * (2 - 5 * eps)) v),
                cub = (\<lambda>x. []), cub_grad = (\<lambda>x. []), cub_hess_prod = (\<lambda>v. []),
                ceq = (\<lambda>x. []), ceq_grad = (\<lambda>x. []), ceq_hess_prod = (\<lambda>v. [])\<rparr>"

text \<open>
  Solvers that return the zero step, and a least-squares solver that is exact for one
  unknown and one equation (and returns the lower bounds otherwise).
\<close>

definition lower_bounds :: "real option list \<Rightarrow> vec" where
  "lower_bounds lb = map (\<lambda>l. case l of None \<Rightarrow> 0 | Some v \<Rightarrow> v) lb"

fun ex_lsq :: "mat \<Rightarrow> vec \<Rightarrow> real option list \<Rightarrow> vec" where
  "ex_lsq [[a0]] [b0] [Some l] = [max l (b0 / a0)]"
| "ex_lsq a b lb = lower_bounds lb"

definition ex_ext :: externals where
  "ex_ext = \<lparr>normal_byrd_omojokun = (\<lambda>aub bub aeq beq bl bu r d. map (\<lambda>x. 0) bl),
             tangential_byrd_omojokun = (\<lambda>g hp bl bu r d. map (\<lambda>x. 0) bl),
             constrained_tangential_byrd_omojokun = (\<lambda>g hp bl bu aub bub aeq r d. map (\<lambda>x. 0) bl),
             get_arrays_tol = (\<lambda>arrays. eps),
             lsq_linear = ex_lsq\<rparr>"

definition ex_mem :: uninitialized where
  "ex_mem = \<lparr>mem_linear_ub = (\<lambda>i. - 1), mem_linear_eq = (\<lambda>i. - 1),
             mem_nonlinear_ub = (\<lambda>i. - 1), mem_nonlinear_eq = (\<lambda>i. - 1)\<rparr>"

definition ex_opts :: options where
  "ex_opts = \<lparr>radius_init = 1, radius_final = 1 / 1000000, debug = True\<rparr>"



text \<open>
  A state of the first instance, at the best point \<open>-4\<close>.
\<close>

definition ex_state :: trust_region where
  "ex_state = \<lparr>pb = ex_pb, models = ex_models, penalty = 0, best_index = 1,
               lm_linear_ub = [0], lm_linear_eq = [], lm_nonlinear_ub = [],
               lm_nonlinear_eq = [], resolution = 1, radius = 12 / 5\<rparr>"

text \<open>
  The second instance before the first assignment of the constructor, and as the
  constructor leaves it for the initial radius 2 (lemma \<open>ex_init_act\<close> below); the
  third instance at its first interpolation point.
\<close>

definition ex_state0_act :: trust_region where
  "ex_state0_act = \<lparr>pb = ex_pb_act, models = ex_models_act, penalty = 0, best_index = 0,
               lm_linear_ub = [], lm_linear_eq = [], lm_nonlinear_ub = [],
               lm_nonlinear_eq = [], resolution = 0, radius = 0\<rparr>"

definition ex_state_act :: trust_region where
  "ex_state_act = \<lparr>pb = ex_pb_act, models = ex_models_act, penalty = 2, best_index = 0,
               lm_linear_ub = [2], lm_linear_eq = [], lm_nonlinear_ub = [],
               lm_nonlinear_eq = [], resolution = 2, radius = 2\<rparr>"

definition ex_state_tie :: trust_region where
  "ex_state_tie = \<lparr>pb = ex_pb_tie, models = ex_models_tie, penalty = 1, best_index = 0,
               lm_linear_ub = [0], lm_linear_eq = [], lm_nonlinear_ub = [],
               lm_nonlinear_eq = [], resolution = 1, radius = 1\<rparr>"

text \<open>
  The first instance without its linear constraint: a bound-constrained problem.
\<close>

definition ex_state_bound :: trust_region where
  "ex_state_bound = ex_state\<lparr>pb := ex_pb\<lparr>ptype := ''bound-constrained'', m_linear_ub := 0,
      linear_ub_a := [], linear_ub_b := []\<rparr>, lm_linear_ub := []\<rparr>"

text \<open>
  The state of the constructor on the first instance before its first assignment, and
  the invariant of the radius and the resolution.
\<close>

definition ex_state0 :: trust_region where
  "ex_state0 = \<lparr>pb = ex_pb, models = ex_models, penalty = 0, best_index = 0,
                lm_linear_ub = [], lm_linear_eq = [], lm_nonlinear_ub = [],
                lm_nonlinear_eq = [], resolution = 0, radius = 0\<rparr>"


section \<open>Properties\<close>

subsection \<open>Arithmetic of the arrays\<close>

lemma tiny_pos: "0 < tiny"
  by (simp add: tiny_def)

lemma tiny_le_one: "tiny \<le> 1"
  by (simp add: tiny_def)

lemma eps_pos: "0 < eps"
  by (simp add: eps_def)

lemma eps_small: "eps \<le> 1 / 100"
  by (simp add: eps_def)

lemma upt3: "[0..<3] = [0, Suc 0, 2]"
  by (simp add: upt_rec)

lemma sum_squares_nonneg: "0 \<le> sum_list (map (\<lambda>x. x * x) (v :: vec))"
  by (rule sum_list_nonneg) auto

lemma linalg_norm_nonneg: "0 \<le> linalg_norm v"
  using sum_squares_nonneg[of v] by (simp add: linalg_norm_def)

lemma dot_self: "dot v v = (linalg_norm v) ^ 2"
proof -
  have "map2 (*) v v = map (\<lambda>x. x * x) v"
    by (induction v) auto
  then show ?thesis
    using sum_squares_nonneg[of v] by (simp add: dot_def linalg_norm_def)
qed

lemma linalg_norm_single: "linalg_norm [x] = \<bar>x\<bar>"
  by (simp add: linalg_norm_def)

lemma linalg_norm_00x: "linalg_norm [0, 0, x] = \<bar>x\<bar>"
  by (simp add: linalg_norm_def)

lemma linalg_norm_zeros: "linalg_norm (map (\<lambda>x. 0) v) = 0"
proof -
  have "sum_list (map (\<lambda>x. x * x) (map (\<lambda>x. 0::real) v)) = 0"
    by (induction v) auto
  then show ?thesis by (simp add: linalg_norm_def)
qed

lemma linalg_norm_3_4: "linalg_norm [3, 4] = 5"
proof -
  have "sqrt 25 = sqrt (5 ^ 2)" by simp
  also have "\<dots> = 5" by (simp only: real_sqrt_abs)
  finally show ?thesis by (simp add: linalg_norm_def)
qed

lemma sqrt_144_25: "sqrt (144 / 25) = 12 / 5"
proof -
  have "sqrt (144 / 25) = sqrt ((12 / 5) ^ 2)" by (simp add: power2_eq_square)
  also have "\<dots> = 12 / 5" by (simp only: real_sqrt_abs)
  finally show ?thesis .
qed


lemma tiny_lt_one: "tiny < 1"
  by (simp add: tiny_def)

lemma tiny_small: "tiny \<le> 1 / 100"
  by (simp add: tiny_def)

text \<open>
  When the step is not longer than the radius, the radius of the tangential subproblem
  is a real number.
\<close>

lemma np_sqrt_radius:
  assumes "linalg_norm v \<le> \<bar>r\<bar>"
  shows "np_sqrt (r ^ 2 - dot v v) = Some (sqrt (r ^ 2 - (linalg_norm v) ^ 2))"
proof -
  have "(linalg_norm v) ^ 2 \<le> \<bar>r\<bar> ^ 2"
    using assms linalg_norm_nonneg by (intro power_mono) auto
  then show ?thesis by (simp add: np_sqrt_def dot_self)
qed

lemma ex_ext_normal_contract: "normal_contract ex_ext"
  by (simp add: normal_contract_def ex_ext_def linalg_norm_zeros)

lemma lower_bounds_length: "length (lower_bounds lb) = length lb"
  by (simp add: lower_bounds_def)

lemma lower_bounds_nth: "i < length lb \<Longrightarrow> lb ! i = Some l \<Longrightarrow> lower_bounds lb ! i = l"
  by (simp add: lower_bounds_def)

lemma ex_lsq_length: "length (ex_lsq a b lb) = length lb"
  by (induction a b lb rule: ex_lsq.induct) (simp_all add: lower_bounds_length)

lemma ex_lsq_lower: "i < length lb \<Longrightarrow> lb ! i = Some l \<Longrightarrow> l \<le> ex_lsq a b lb ! i"
  by (induction a b lb rule: ex_lsq.induct) (simp_all add: lower_bounds_nth)

lemma ex_ext_lsq_contract: "lsq_contract ex_ext"
  by (simp add: lsq_contract_def ex_ext_def ex_lsq_length ex_lsq_lower)

subsection \<open>Radius and resolution\<close>

text \<open>
  C6: \<open>update_radius\<close> changes the radius only. The candidate is half the radius when
  the ratio is at most 0.1, the larger of half the radius and the norm of the step when
  the ratio is in (0.1, 0.7], and otherwise the smaller of \<open>sqrt 2\<close> times the radius
  and the larger of half the radius and twice the norm of the step; a candidate that is
  at most 1.4 times the resolution is replaced by the resolution.
\<close>

theorem update_radius_spec:
  "update_radius step ratio st =
     (let cand = (if ratio \<le> 0.1 then radius st / 2
                  else if ratio \<le> 0.7 then max (radius st / 2) (linalg_norm step)
                  else min (sqrt 2 * radius st) (max (radius st / 2) (2 * linalg_norm step)))
      in st\<lparr>radius := (if cand \<le> 1.4 * resolution st then resolution st else cand)\<rparr>)"
  by (simp add: update_radius_def set_radius_def Let_def)

text \<open>
  With radius 12/5 and resolution 1: a step of norm 5 with ratio 1/2 gives the radius 5,
  and a ratio 0 gives the candidate 6/5, which is snapped to the resolution 1.
\<close>

theorem update_radius_spec_witness:
  "update_radius [3, 4] (1 / 2) ex_state = ex_state\<lparr>radius := 5\<rparr>
   \<and> update_radius [3, 4] 0 ex_state = ex_state\<lparr>radius := 1\<rparr>"
  using update_radius_spec[of "[3, 4]" "1 / 2" ex_state] update_radius_spec[of "[3, 4]" 0 ex_state]
  by (simp add: linalg_norm_3_4 ex_state_def)



text \<open>
  The square root of \<open>reduce_resolution\<close> is taken of a number that is not negative: the
  branch is entered only when the final resolution and the resolution are positive.
\<close>

lemma reduce_resolution_sqrt_arg:
  assumes "\<not> 250 * radius_final opts < resolution st" "16 * radius_final opts < resolution st"
  shows "0 < resolution st * radius_final opts"
    and "0 \<le> np_mul (resolution st) (radius_final opts)"
proof -
  from assms have "0 < radius_final opts" by linarith
  moreover with assms have "0 < resolution st" by linarith
  ultimately show "0 < resolution st * radius_final opts" by simp
  then show "0 \<le> np_mul (resolution st) (radius_final opts)"
    by (simp add: np_mul_def)
qed











text \<open>
  No call underflows when 16 times the square of the final resolution is at least
  \<open>2\<^sup>-\<^sup>1\<^sup>0\<^sup>7\<^sup>5\<close> (a final resolution of at least about \<open>3.9 * 10\<^sup>-\<^sup>1\<^sup>6\<^sup>3\<close>): in the
  branch of the square root the resolution exceeds 16 times the final resolution.
\<close>

lemma no_underflow_sufficient:
  assumes pos: "0 < radius_final opts" and big: "half_min_double \<le> 16 * (radius_final opts) ^ 2"
  shows "no_underflow opts cs st"
proof (induction cs arbitrary: st)
  case Nil
  then show ?case by simp
next
  case (Cons c cs)
  have nu: "\<not> sqrt_underflows opts s" for s
  proof
    assume u: "sqrt_underflows opts s"
    then have gt: "16 * radius_final opts < resolution s"
      and le: "\<bar>resolution s * radius_final opts\<bar> \<le> half_min_double"
      unfolding sqrt_underflows_def by blast+
    from gt pos have "16 * radius_final opts * radius_final opts < resolution s * radius_final opts"
      by (intro mult_strict_right_mono)
    then have "16 * (radius_final opts) ^ 2 < \<bar>resolution s * radius_final opts\<bar>"
      by (simp add: power2_eq_square)
    with le big show False by linarith
  qed
  show ?case
  proof (cases c)
    case (Update_radius step ratio)
    with Cons show ?thesis by simp
  next
    case Reduce_resolution
    with Cons nu show ?thesis by simp
  qed
qed




subsection \<open>Evaluation on the first instance\<close>

lemma ex_state_x_best: "x_best ex_state = [- 4]"
  by (simp add: x_best_def point_def vadd_def ex_state_def ex_models_def)

lemma ex_state_lin: "get_constraint_linearizations ex_state [- 4] = ([[1]], [4], [], [])"
  by (simp add: get_constraint_linearizations_def Let_def ex_state_def ex_pb_def ex_models_def
        vsub_def vneg_def matvec_def dot_def)

lemma ex_state_hess_prod: "lag_model_hess_prod ex_state [a] = [2 * a]"
  by (simp add: lag_model_hess_prod_def ex_state_def ex_pb_def ex_models_def vadd_def smul_def
        vecmat_def)

lemma ex_state_sqp_fun: "sqp_fun ex_state [a] = a * (- 8 + a)"
  by (simp add: sqp_fun_def ex_state_x_best ex_state_hess_prod)
     (simp add: ex_state_def ex_models_def vadd_def smul_def dot_def)

lemma ex_state_merits:
  "merit_old ex_state = 16"
  "merit_new ex_state step fv cubv ceqv = fv"
  "merit_model_old ex_state = 0"
  "merit_model_new ex_state [a] = a * (- 8 + a)"
  by (simp_all add: merit_old_def merit_new_def merit_model_old_def merit_model_new_def merit_def
        ex_state_sqp_fun fun_best_def)
     (simp_all add: ex_state_def ex_models_def)

lemma ex_state_bound_x_best: "x_best ex_state_bound = [- 4]"
  by (simp add: x_best_def point_def vadd_def ex_state_bound_def ex_state_def ex_models_def)

lemma ex_state_bound_lin: "get_constraint_linearizations ex_state_bound [- 4] = ([], [], [], [])"
  by (simp add: get_constraint_linearizations_def Let_def ex_state_bound_def ex_state_def ex_pb_def
        ex_models_def vsub_def vneg_def matvec_def dot_def)

lemma ex_state_bound_hess_prod: "lag_model_hess_prod ex_state_bound [a] = [2 * a]"
  by (simp add: lag_model_hess_prod_def ex_state_bound_def ex_state_def ex_pb_def ex_models_def
        vadd_def smul_def vecmat_def)

lemma ex_fields:
  "ptype (pb ex_state) = ''linearly constrained''"
  "ptype (pb ex_state_bound) = ''bound-constrained''"
  "xl (pb ex_state) = [- 10]" "xu (pb ex_state) = [10]" "radius ex_state = 12 / 5"
  "xl (pb ex_state_bound) = [- 10]" "xu (pb ex_state_bound) = [10]"
  "radius ex_state_bound = 12 / 5" "debug ex_opts"
  "fun_grad (models ex_state) [- 4] = [- 8]" "fun_grad (models ex_state_bound) [- 4] = [- 8]"
  "normal_byrd_omojokun ex_ext = (\<lambda>aub bub aeq beq bl bu r d. map (\<lambda>x. 0) bl)"
  "constrained_tangential_byrd_omojokun ex_ext
     = (\<lambda>g hp bl bu aub bub aeq r d. map (\<lambda>x. 0) bl)"
  "get_arrays_tol ex_ext = (\<lambda>arrays. eps)"
  by (simp_all add: ex_state_bound_def ex_state_def ex_pb_def ex_opts_def ex_models_def
        ex_ext_def smul_def)

subsection \<open>The reduction ratio\<close>

text \<open>
  C3: with \<open>actual\<close> the difference of the merit values at the best point and at the
  trial point (for the values supplied by the caller) and \<open>model\<close> the difference of the
  merit values predicted by the SQP models, \<open>get_reduction_ratio\<close> returns
  \<open>actual / |model|\<close> when \<open>|model| > tiny * |actual|\<close>, a division by a number that is
  not zero, and \<open>-1\<close> otherwise. The result is bounded in absolute value by \<open>1 / tiny\<close>,
  about \<open>4.5 * 10\<^sup>3\<^sup>0\<^sup>7\<close>, which is a finite double-precision number.
\<close>

theorem get_reduction_ratio_spec:
  "(\<bar>merit_model_old st - merit_model_new st step\<bar>
        > tiny * \<bar>merit_old st - merit_new st step fv cubv ceqv\<bar>
      \<longrightarrow> merit_model_old st - merit_model_new st step \<noteq> 0
          \<and> get_reduction_ratio st step fv cubv ceqv
              = (merit_old st - merit_new st step fv cubv ceqv)
                  / \<bar>merit_model_old st - merit_model_new st step\<bar>)
   \<and> (\<not> \<bar>merit_model_old st - merit_model_new st step\<bar>
          > tiny * \<bar>merit_old st - merit_new st step fv cubv ceqv\<bar>
      \<longrightarrow> get_reduction_ratio st step fv cubv ceqv = - 1)
   \<and> \<bar>get_reduction_ratio st step fv cubv ceqv\<bar> \<le> 1 / tiny"
proof -
  let ?model = "merit_model_old st - merit_model_new st step"
  let ?actual = "merit_old st - merit_new st step fv cubv ceqv"
  have one: "1 \<le> 1 / tiny" using tiny_pos tiny_le_one by (simp add: le_divide_eq)
  have c1: "\<bar>?model\<bar> > tiny * \<bar>?actual\<bar> \<Longrightarrow> ?model \<noteq> 0"
  proof
    assume a: "\<bar>?model\<bar> > tiny * \<bar>?actual\<bar>" and z: "?model = 0"
    have "0 \<le> tiny * \<bar>?actual\<bar>" using tiny_pos by simp
    with a z show False by simp
  qed
  have c3: "\<bar>get_reduction_ratio st step fv cubv ceqv\<bar> \<le> 1 / tiny"
  proof (cases "\<bar>?model\<bar> > tiny * \<bar>?actual\<bar>")
    case True
    then have r: "get_reduction_ratio st step fv cubv ceqv = ?actual / \<bar>?model\<bar>"
      by (simp add: get_reduction_ratio_def)
    from c1[OF True] have mpos: "0 < \<bar>?model\<bar>" by simp
    from True have "\<bar>?actual\<bar> * tiny \<le> \<bar>?model\<bar>" by (simp add: mult.commute)
    then have "\<bar>?actual\<bar> \<le> \<bar>?model\<bar> / tiny" using tiny_pos by (simp add: pos_le_divide_eq)
    then have "\<bar>?actual\<bar> / \<bar>?model\<bar> \<le> 1 / tiny"
      using mpos tiny_pos by (simp add: pos_divide_le_eq mult.commute)
    with r show ?thesis by simp
  next
    case False
    then have "get_reduction_ratio st step fv cubv ceqv = - 1"
      by (simp add: get_reduction_ratio_def)
    with one show ?thesis by simp
  qed
  show ?thesis using c1 c3 by (simp add: get_reduction_ratio_def)
qed

text \<open>
  At the best point \<open>-4\<close> of the first instance, the step \<open>1\<close> with the true value
  \<open>9\<close> has actual and predicted reductions \<open>7\<close> and the ratio \<open>1\<close>; the step \<open>0\<close>
  with the value \<open>16\<close> has a predicted reduction \<open>0\<close> and the ratio \<open>-1\<close>.
\<close>

theorem get_reduction_ratio_spec_witness:
  "tiny * \<bar>merit_old ex_state - merit_new ex_state [1] 9 [] []\<bar>
     < \<bar>merit_model_old ex_state - merit_model_new ex_state [1]\<bar>
   \<and> get_reduction_ratio ex_state [1] 9 [] [] = 1
   \<and> \<not> tiny * \<bar>merit_old ex_state - merit_new ex_state [0] 16 [] []\<bar>
         < \<bar>merit_model_old ex_state - merit_model_new ex_state [0]\<bar>
   \<and> get_reduction_ratio ex_state [0] 16 [] [] = - 1"
  using get_reduction_ratio_spec[of ex_state "[1]" 9 "[]" "[]"]
    get_reduction_ratio_spec[of ex_state "[0]" 16 "[]" "[]"] tiny_pos tiny_lt_one
  by (simp add: ex_state_merits)

subsection \<open>The composite trust-region step\<close>

text \<open>
  C4: \<open>get_trust_region_step\<close> calls the normal solver on the linearizations at the
  best point, the bounds translated by the best point and the radius \<open>0.8\<close> times the
  trust-region radius, and returns its result as the normal step \<open>n\<close>. It then makes
  exactly one more call, with the gradient of the objective model at the best point plus
  the product of the Hessian of the Lagrangian model with \<open>n\<close>, the bounds shifted by
  \<open>n\<close> and the radius \<open>np.sqrt\<close> of the squared radius minus \<open>n @ n\<close>: to the
  bound-tangential solver when the type of the problem is \<open>unconstrained\<close> or
  \<open>bound-constrained\<close>, and otherwise to the constrained-tangential solver, which also
  receives \<open>aub\<close>, the right-hand side \<open>max(bub - aub n, 0)\<close> and \<open>aeq\<close>. When
  \<open>n\<close> is not longer than the radius, the reduced radius is the square root of the
  squared radius minus the squared norm of \<open>n\<close>.
\<close>

theorem get_trust_region_step_spec:
  "case get_constraint_linearizations st (x_best st) of (aub, bub, aeq, beq) \<Rightarrow>
     (let bl = vsub (xl (pb st)) (x_best st);
          bu = vsub (xu (pb st)) (x_best st);
          nstep = normal_byrd_omojokun ext aub bub aeq beq bl bu (0.8 * radius st) (debug opts);
          rad = np_sqrt ((radius st) ^ 2 - dot nstep nstep);
          g = vadd (fun_grad (models st) (x_best st)) (lag_model_hess_prod st nstep);
          bub1 = maximum0 (vsub bub (matvec aub nstep))
      in fst (snd (snd (get_trust_region_step ext opts st))) = nstep
       \<and> (ptype (pb st) = ''unconstrained'' \<or> ptype (pb st) = ''bound-constrained'' \<longrightarrow>
            fst (get_trust_region_step ext opts st)
              = [Normal_call aub bub aeq beq bl bu (0.8 * radius st) (debug opts),
                 Tangential_call g (lag_model_hess_prod st) (vsub bl nstep) (vsub bu nstep) rad
                   (debug opts)]
          \<and> snd (snd (snd (get_trust_region_step ext opts st)))
              = tangential_byrd_omojokun ext g (lag_model_hess_prod st) (vsub bl nstep)
                  (vsub bu nstep) rad (debug opts))
       \<and> (\<not> (ptype (pb st) = ''unconstrained'' \<or> ptype (pb st) = ''bound-constrained'') \<longrightarrow>
            fst (get_trust_region_step ext opts st)
              = [Normal_call aub bub aeq beq bl bu (0.8 * radius st) (debug opts),
                 Constrained_tangential_call g (lag_model_hess_prod st) (vsub bl nstep)
                   (vsub bu nstep) aub bub1 aeq rad (debug opts)]
          \<and> snd (snd (snd (get_trust_region_step ext opts st)))
              = constrained_tangential_byrd_omojokun ext g (lag_model_hess_prod st)
                  (vsub bl nstep) (vsub bu nstep) aub bub1 aeq rad (debug opts))
       \<and> (linalg_norm nstep \<le> \<bar>radius st\<bar> \<longrightarrow>
            rad = Some (sqrt ((radius st) ^ 2 - (linalg_norm nstep) ^ 2))))"
  by (auto simp: get_trust_region_step_def Let_def np_sqrt_radius split: prod.splits)

text \<open>
  On the first instance (linearly constrained, radius 12/5, solvers returning the zero
  step) the second call is to the constrained-tangential solver; without the linear
  constraint (bound-constrained) it is to the bound-tangential solver.
\<close>

theorem get_trust_region_step_spec_witness:
  "\<not> (ptype (pb ex_state) = ''unconstrained'' \<or> ptype (pb ex_state) = ''bound-constrained'')
   \<and> get_trust_region_step ex_ext ex_opts ex_state
       = ([Normal_call [[1]] [4] [] [] [- 6] [14] (48 / 25) True,
           Constrained_tangential_call [- 8] (lag_model_hess_prod ex_state) [- 6] [14]
             [[1]] [4] [] (Some (12 / 5)) True],
          [], [0], [0])
   \<and> ptype (pb ex_state_bound) = ''bound-constrained''
   \<and> fst (get_trust_region_step ex_ext ex_opts ex_state_bound)
       = [Normal_call [] [] [] [] [- 6] [14] (48 / 25) True,
          Tangential_call [- 8] (lag_model_hess_prod ex_state_bound) [- 6] [14]
            (Some (12 / 5)) True]"
proof -
  have w: "get_trust_region_step ex_ext ex_opts ex_state
       = ([Normal_call [[1]] [4] [] [] [- 6] [14] (48 / 25) True,
           Constrained_tangential_call [- 8] (lag_model_hess_prod ex_state) [- 6] [14]
             [[1]] [4] [] (np_sqrt (144 / 25)) True],
          [], [0], [0])"
    using eps_pos
    by (simp add: get_trust_region_step_def ex_state_x_best ex_state_lin ex_fields Let_def
          vsub_def vadd_def matvec_def dot_def maximum0_def ex_state_hess_prod bound_warning_def
          any_lt_def linalg_norm_single power2_eq_square)
  show ?thesis
    using get_trust_region_step_spec[of ex_state ex_ext ex_opts]
      get_trust_region_step_spec[of ex_state_bound ex_ext ex_opts]
    by (simp add: ex_state_x_best ex_state_lin ex_state_bound_x_best ex_state_bound_lin ex_fields
          Let_def vsub_def vadd_def matvec_def dot_def maximum0_def ex_state_hess_prod
          ex_state_bound_hess_prod linalg_norm_single power2_eq_square sqrt_144_25 w
          np_sqrt_def)
qed

subsection \<open>The second-order correction step\<close>

text \<open>
  C9: \<open>get_second_order_correction_step\<close> makes one call, to the normal solver, on the
  linearizations at the best point and the bounds translated by the best point, with the
  radius \<open>step @ step\<close>, the squared norm of the step, and returns its result. When the
  normal solver returns steps inside the trust region it is given, the norm of the
  correction step is at most 1.1 times the squared norm of the step.
\<close>

theorem get_second_order_correction_step_spec:
  assumes "normal_contract ext"
  shows "case get_constraint_linearizations st (x_best st) of (aub, bub, aeq, beq) \<Rightarrow>
     fst (get_second_order_correction_step ext step opts st)
       = [Normal_call aub bub aeq beq (vsub (xl (pb st)) (x_best st))
            (vsub (xu (pb st)) (x_best st)) ((linalg_norm step) ^ 2) (debug opts)]
     \<and> snd (snd (get_second_order_correction_step ext step opts st))
       = normal_byrd_omojokun ext aub bub aeq beq (vsub (xl (pb st)) (x_best st))
            (vsub (xu (pb st)) (x_best st)) ((linalg_norm step) ^ 2) (debug opts)
     \<and> linalg_norm (snd (snd (get_second_order_correction_step ext step opts st)))
          \<le> 1.1 * (linalg_norm step) ^ 2"
proof -
  obtain aub bub aeq beq where lin:
    "get_constraint_linearizations st (x_best st) = (aub, bub, aeq, beq)"
    by (cases "get_constraint_linearizations st (x_best st)") auto
  let ?bl = "vsub (xl (pb st)) (x_best st)" and ?bu = "vsub (xu (pb st)) (x_best st)"
  let ?r = "(linalg_norm step) ^ 2"
  let ?s = "normal_byrd_omojokun ext aub bub aeq beq ?bl ?bu ?r (debug opts)"
  have "0 \<le> ?r" by simp
  with assms have "linalg_norm ?s \<le> ?r"
    unfolding normal_contract_def by blast
  moreover have "?r \<le> 1.1 * ?r" by simp
  ultimately have bound: "linalg_norm ?s \<le> 1.1 * ?r" by linarith
  show ?thesis
    using bound by (simp add: lin get_second_order_correction_step_def Let_def dot_self)
qed

text \<open>
  The solvers of the instance satisfy the contract; for the step \<open>2\<close> the radius of the
  call is \<open>4\<close>.
\<close>

theorem get_second_order_correction_step_spec_witness:
  "normal_contract ex_ext
   \<and> fst (get_second_order_correction_step ex_ext [2] ex_opts ex_state)
       = [Normal_call [[1]] [4] [] [] [- 6] [14] 4 True]
   \<and> linalg_norm (snd (snd (get_second_order_correction_step ex_ext [2] ex_opts ex_state)))
       \<le> 1.1 * (linalg_norm [2]) ^ 2"
  using get_second_order_correction_step_spec[OF ex_ext_normal_contract,
      where st = ex_state and step = "[2]" and opts = ex_opts]
    ex_ext_normal_contract
  by (simp add: ex_state_x_best ex_state_lin ex_fields vsub_def linalg_norm_single)

subsection \<open>Evaluation on the instance with an active constraint\<close>

lemma ex_act_fields:
  "npt (models ex_state_act) = 3" "n (pb ex_state_act) = 1" "best_index ex_state_act = 0"
  "penalty ex_state_act = 2"
  by (simp_all add: npt_def ex_state_act_def ex_models_act_def ex_pb_act_def ex_pb_def)

lemma ex_act_lin:
  "get_constraint_linearizations ex_state_act (x_best ex_state_act) = ([[1]], [- 1], [], [])"
  by (simp add: get_constraint_linearizations_def ex_state_act_def ex_pb_act_def ex_pb_def
        ex_models_act_def Let_def x_best_def point_def vadd_def vsub_def vneg_def matvec_def
        dot_def)

lemma ex_act_viol_diff: "viol_diff ex_state_act [- 2] = 1"
  by (simp add: viol_diff_def ex_act_lin maximum0_def vneg_def vsub_def matvec_def dot_def
        linalg_norm_def)

lemma ex_act_sqp_var: "sqp_var ex_state_act [- 2] = 4"
  by (simp add: sqp_var_def lag_model_hess_prod_def ex_state_act_def ex_pb_act_def ex_pb_def
        ex_models_act_def x_best_def point_def vadd_def smul_def vecmat_def dot_def)

lemma ex_act_threshold: "penalty_threshold ex_state_act [- 2] = 4"
proof -
  have "lm_linear_ub ex_state_act @ lm_linear_eq ex_state_act @ lm_nonlinear_ub ex_state_act
          @ lm_nonlinear_eq ex_state_act = [2]"
    by (simp add: ex_state_act_def)
  then show ?thesis
    using tiny_pos tiny_small
    by (simp add: penalty_threshold_def Let_def ex_act_viol_diff ex_act_sqp_var
          linalg_norm_single)
qed

lemma ex_act_merit:
  "merit_at (ex_state_act\<lparr>penalty := 8\<rparr>) 0 = 5"
  "merit_at (ex_state_act\<lparr>penalty := 8\<rparr>) (Suc 0) = 17"
  "merit_at (ex_state_act\<lparr>penalty := 8\<rparr>) 2 = 1"
  by (simp_all add: merit_at_def merit_def ex_state_act_def ex_models_act_def ex_pb_act_def
        ex_pb_def point_def vadd_def vsub_def matvec_def dot_def maximum0_def vabs_def
        linalg_norm_00x Let_def)

lemma ex_act_best:
  "set_best_index (ex_state_act\<lparr>penalty := 8\<rparr>) = ex_state_act\<lparr>penalty := 8, best_index := 2\<rparr>"
  using eps_pos eps_small
  by (simp add: set_best_index_def Let_def ex_act_fields upt3 ex_act_merit best_tol_def)

lemma ex_act_increase:
  "fst (increase_penalty [- 2] ex_state_act) = ex_state_act\<lparr>penalty := 8, best_index := 2\<rparr>"
  by (simp add: increase_penalty_def Let_def ex_act_threshold ex_act_fields ex_act_best)

lemma ex_act_moved_jac:
  "active_jacobian (ex_state_act\<lparr>penalty := 8, best_index := 2\<rparr>) = []"
  by (simp add: active_jacobian_def ex_state_act_def ex_pb_act_def ex_pb_def ex_models_act_def
        Let_def x_best_def cub_best_def point_def vadd_def vge_def vle_def matvec_def dot_def
        select_def cub_grad_mask_def eye_def)

lemma ex_state_threshold: "penalty_threshold (ex_state\<lparr>penalty := 1\<rparr>) [1] = 0"
proof -
  have x: "x_best (ex_state\<lparr>penalty := 1\<rparr>) = [- 4]"
    by (simp add: x_best_def point_def vadd_def ex_state_def ex_models_def)
  have l: "get_constraint_linearizations (ex_state\<lparr>penalty := 1\<rparr>) [- 4] = ([[1]], [4], [], [])"
    by (simp add: get_constraint_linearizations_def Let_def ex_state_def ex_pb_def ex_models_def
          vsub_def vneg_def matvec_def dot_def)
  have v: "viol_diff (ex_state\<lparr>penalty := 1\<rparr>) [1] = 0"
    by (simp add: viol_diff_def x l maximum0_def vneg_def vsub_def matvec_def dot_def
          linalg_norm_def)
  have h: "lag_model_hess_prod (ex_state\<lparr>penalty := 1\<rparr>) [1] = [2]"
    by (simp add: lag_model_hess_prod_def ex_state_def ex_pb_def ex_models_def vadd_def smul_def
          vecmat_def)
  have s: "sqp_var (ex_state\<lparr>penalty := 1\<rparr>) [1] = - 7"
    by (simp add: sqp_var_def x h) (simp add: ex_state_def ex_models_def vadd_def smul_def dot_def)
  have "lm_linear_ub (ex_state\<lparr>penalty := 1\<rparr>) @ lm_linear_eq (ex_state\<lparr>penalty := 1\<rparr>)
          @ lm_nonlinear_ub (ex_state\<lparr>penalty := 1\<rparr>) @ lm_nonlinear_eq (ex_state\<lparr>penalty := 1\<rparr>)
        = [0]"
    by (simp add: ex_state_def)
  then show ?thesis
    using tiny_pos by (simp add: penalty_threshold_def Let_def v s linalg_norm_single)
qed

subsection \<open>The penalty parameter\<close>

lemma set_best_index_penalty: "penalty (set_best_index st) = penalty st"
  by (simp add: set_best_index_def Let_def)

lemma penalty_threshold_nonneg: "0 \<le> penalty_threshold st step"
  using linalg_norm_nonneg[of "lm_linear_ub st @ lm_linear_eq st @ lm_nonlinear_ub st
      @ lm_nonlinear_eq st"]
  by (simp add: penalty_threshold_def Let_def max_def)

text \<open>
  C5: the threshold of \<open>increase_penalty\<close> is the norm of the multipliers, replaced by
  the larger of it and \<open>sqp_var / viol_diff\<close> (a division by a number that is not zero)
  when \<open>|viol_diff| > tiny * |sqp_var|\<close>. When the penalty parameter is at most 1.5
  times the threshold, it becomes twice the threshold and the best index is selected
  again; otherwise the state is unchanged. The penalty parameter never decreases, and
  the result is true exactly when the best index after the call is the one before it.
\<close>

theorem increase_penalty_spec:
  "penalty_threshold st step
     = (let lm_norm = linalg_norm (lm_linear_ub st @ lm_linear_eq st @ lm_nonlinear_ub st
                                     @ lm_nonlinear_eq st)
        in if \<bar>viol_diff st step\<bar> > tiny * \<bar>sqp_var st step\<bar>
             then max lm_norm (sqp_var st step / viol_diff st step) else lm_norm)
   \<and> (\<bar>viol_diff st step\<bar> > tiny * \<bar>sqp_var st step\<bar> \<longrightarrow> viol_diff st step \<noteq> 0)
   \<and> (penalty st \<le> 1.5 * penalty_threshold st step \<longrightarrow>
         fst (increase_penalty step st)
           = set_best_index (st\<lparr>penalty := 2 * penalty_threshold st step\<rparr>)
       \<and> penalty (fst (increase_penalty step st)) = 2 * penalty_threshold st step)
   \<and> (\<not> penalty st \<le> 1.5 * penalty_threshold st step \<longrightarrow> fst (increase_penalty step st) = st)
   \<and> penalty st \<le> penalty (fst (increase_penalty step st))
   \<and> (snd (increase_penalty step st)
        \<longleftrightarrow> best_index (fst (increase_penalty step st)) = best_index st)"
proof -
  have a: "\<bar>viol_diff st step\<bar> > tiny * \<bar>sqp_var st step\<bar> \<Longrightarrow> viol_diff st step \<noteq> 0"
  proof
    assume h: "\<bar>viol_diff st step\<bar> > tiny * \<bar>sqp_var st step\<bar>" and z: "viol_diff st step = 0"
    have "0 \<le> tiny * \<bar>sqp_var st step\<bar>" using tiny_pos by simp
    with h z show False by simp
  qed
  have mono: "penalty st \<le> penalty (fst (increase_penalty step st))"
    using penalty_threshold_nonneg[of st step]
    by (simp add: increase_penalty_def Let_def set_best_index_penalty)
  show ?thesis
    using a mono
    by (auto simp: increase_penalty_def Let_def set_best_index_penalty penalty_threshold_def)
qed

text \<open>
  On the instance with an active constraint, as constructed (multiplier 2, penalty
  parameter 2), the step \<open>-2\<close> gives the threshold 4; the penalty parameter becomes 8,
  the best index moves from 0 to 2, and the result is false. On the first instance
  with penalty parameter 1 and the step \<open>1\<close> the threshold is 0 and nothing changes.
\<close>

theorem increase_penalty_spec_witness:
  "tiny * \<bar>sqp_var ex_state_act [- 2]\<bar> < \<bar>viol_diff ex_state_act [- 2]\<bar>
   \<and> penalty ex_state_act \<le> 1.5 * penalty_threshold ex_state_act [- 2]
   \<and> penalty (fst (increase_penalty [- 2] ex_state_act)) = 8
   \<and> best_index (fst (increase_penalty [- 2] ex_state_act)) = 2
   \<and> \<not> snd (increase_penalty [- 2] ex_state_act)
   \<and> \<not> penalty (ex_state\<lparr>penalty := 1\<rparr>) \<le> 1.5 * penalty_threshold (ex_state\<lparr>penalty := 1\<rparr>) [1]
   \<and> fst (increase_penalty [1] (ex_state\<lparr>penalty := 1\<rparr>)) = ex_state\<lparr>penalty := 1\<rparr>
   \<and> snd (increase_penalty [1] (ex_state\<lparr>penalty := 1\<rparr>))"
  using increase_penalty_spec[of ex_state_act "[- 2]"]
    increase_penalty_spec[of "ex_state\<lparr>penalty := 1\<rparr>" "[1]"] tiny_pos tiny_small
  by (simp add: ex_act_viol_diff ex_act_sqp_var ex_act_threshold ex_act_best ex_act_fields
        ex_state_threshold)

subsection \<open>The best interpolation point\<close>

lemma merit_at_best_index: "merit_at (st\<lparr>best_index := b\<rparr>) k = merit_at st k"
  by (simp add: merit_at_def merit_def Let_def)

lemma resid_at_best_index: "resid_at (st\<lparr>best_index := b\<rparr>) k = resid_at st k"
  by (simp add: resid_at_def)

lemma tol_from_best_index: "tol_from (st\<lparr>best_index := b\<rparr>) s = tol_from st s"
  by (simp add: tol_from_def merit_at_best_index)

lemma best_tol_tol_from: "best_tol st = tol_from st (best_index st)"
  by (simp add: best_tol_def tol_from_def)

lemma tol_from_pos: "0 < npt (models st) \<Longrightarrow> 0 < tol_from st s"
  using eps_pos by (simp add: tol_from_def)

lemma tie_break_exactD:
  assumes "tie_break_exact st" "s < npt (models st)" "j < npt (models st)" "k < npt (models st)"
    "resid_at st k < resid_at st j" "merit_at st k < merit_at st j + tol_from st s"
  shows "merit_at st k \<le> merit_at st j"
  using assms unfolding tie_break_exact_def list_all_iff by simp

lemma lex_le_trans: "lex_le st a b \<Longrightarrow> lex_le st b c \<Longrightarrow> lex_le st a c"
  by (auto simp: lex_le_def)

lemma lex_le_refl: "lex_le st a a"
  by (simp add: lex_le_def)

text \<open>The loop changes nothing when no index visited beats the start.\<close>

lemma best_loop_fix:
  "\<forall>k \<in> set ks. k \<noteq> best_index st \<longrightarrow>
       \<not> (merit_at st k < m \<or> (merit_at st k < m + tol \<and> resid_at st k < r))
   \<Longrightarrow> best_loop st tol ks (b, m, r) = (b, m, r)"
  by (induction ks) (auto simp: Let_def)

text \<open>
  The loop never moves to the index it skips, so that it does not come back to the
  start once an index has beaten it.
\<close>

lemma best_loop_away:
  "b \<noteq> best_index st \<Longrightarrow> fst (best_loop st tol ks (b, m, r)) \<noteq> best_index st"
  by (induction ks arbitrary: b m r) (auto simp: Let_def)

lemma best_loop_beaten:
  "\<exists>k \<in> set ks. k \<noteq> best_index st
       \<and> (merit_at st k < m \<or> (merit_at st k < m + tol \<and> resid_at st k < r))
   \<Longrightarrow> fst (best_loop st tol ks (best_index st, m, r)) \<noteq> best_index st"
proof (induction ks)
  case Nil
  then show ?case by simp
next
  case (Cons k ks)
  show ?case
  proof (cases "k \<noteq> best_index st
      \<and> (merit_at st k < m \<or> (merit_at st k < m + tol \<and> resid_at st k < r))")
    case True
    then have "best_loop st tol (k # ks) (best_index st, m, r)
        = best_loop st tol ks (k, merit_at st k, resid_at st k)"
      by (simp add: Let_def)
    with True best_loop_away[of k st tol ks] show ?thesis by simp
  next
    case False
    then have step: "best_loop st tol (k # ks) (best_index st, m, r)
        = best_loop st tol ks (best_index st, m, r)"
      by (auto simp: Let_def)
    from False Cons.prems have "\<exists>k \<in> set ks. k \<noteq> best_index st
       \<and> (merit_at st k < m \<or> (merit_at st k < m + tol \<and> resid_at st k < r))"
      by auto
    with Cons.IH step show ?thesis by simp
  qed
qed

text \<open>
  \<open>set_best_index\<close> leaves a state unchanged exactly when the state is not beaten.
\<close>

lemma set_best_index_fix_iff: "set_best_index st = st \<longleftrightarrow> \<not> beaten st"
proof
  assume same: "set_best_index st = st"
  show "\<not> beaten st"
  proof
    assume "beaten st"
    then have "\<exists>k \<in> set [0..<npt (models st)]. k \<noteq> best_index st
       \<and> (merit_at st k < merit_at st (best_index st)
            \<or> (merit_at st k < merit_at st (best_index st) + best_tol st
                 \<and> resid_at st k < resid_at st (best_index st)))"
      by (simp add: beaten_def beats_def list_ex_iff)
    then have "fst (best_loop st (best_tol st) [0..<npt (models st)]
        (best_index st, merit_at st (best_index st), resid_at st (best_index st)))
        \<noteq> best_index st"
      by (rule best_loop_beaten)
    then have "best_index (set_best_index st) \<noteq> best_index st"
      by (simp add: set_best_index_def Let_def)
    with same show False by simp
  qed
next
  assume nb: "\<not> beaten st"
  then have "\<forall>k \<in> set [0..<npt (models st)]. k \<noteq> best_index st \<longrightarrow>
       \<not> (merit_at st k < merit_at st (best_index st)
            \<or> (merit_at st k < merit_at st (best_index st) + best_tol st
                 \<and> resid_at st k < resid_at st (best_index st)))"
    by (auto simp: beaten_def beats_def list_ex_iff)
  then have "best_loop st (best_tol st) [0..<npt (models st)]
        (best_index st, merit_at st (best_index st), resid_at st (best_index st))
      = (best_index st, merit_at st (best_index st), resid_at st (best_index st))"
    by (rule best_loop_fix)
  then show "set_best_index st = st"
    by (simp add: set_best_index_def Let_def)
qed

text \<open>
  When the tie-breaking clause decides between equal merit values only, the loop ends
  on an index in range that is least, in the lexicographic order of the merit value
  and the residual, among the start and the indices visited.
\<close>

lemma best_loop_lexmin:
  assumes exact: "\<And>j k. j < N \<Longrightarrow> k < N \<Longrightarrow> resid_at st k < resid_at st j
                   \<Longrightarrow> merit_at st k < merit_at st j + tol \<Longrightarrow> merit_at st k \<le> merit_at st j"
    and tolpos: "0 < tol"
  shows "set ks \<subseteq> {..<N} \<Longrightarrow> b < N
     \<Longrightarrow> best_loop st tol ks (b, merit_at st b, resid_at st b) = (b', m', r')
     \<Longrightarrow> b' < N \<and> m' = merit_at st b' \<and> r' = resid_at st b'
         \<and> lex_le st b' b
         \<and> (\<forall>k \<in> set ks. k \<noteq> best_index st \<longrightarrow> lex_le st b' k)"
proof (induction ks arbitrary: b)
  case Nil
  then show ?case by (auto simp: lex_le_refl)
next
  case (Cons k ks)
  from Cons.prems have kN: "k < N" and ksN: "set ks \<subseteq> {..<N}" by auto
  show ?case
  proof (cases "k \<noteq> best_index st
      \<and> (merit_at st k < merit_at st b
            \<or> (merit_at st k < merit_at st b + tol \<and> resid_at st k < resid_at st b))")
    case True
    then have kb: "lex_le st k b"
      using exact[OF Cons.prems(2) kN] by (auto simp: lex_le_def)
    from True Cons.prems(3)
    have "best_loop st tol ks (k, merit_at st k, resid_at st k) = (b', m', r')"
      by (simp add: Let_def)
    from Cons.IH[OF ksN kN this]
    have ih: "b' < N" "m' = merit_at st b'" "r' = resid_at st b'" "lex_le st b' k"
      "\<forall>j \<in> set ks. j \<noteq> best_index st \<longrightarrow> lex_le st b' j"
      by auto
    from ih(4) kb have "lex_le st b' b" by (rule lex_le_trans)
    with ih show ?thesis by auto
  next
    case False
    with Cons.prems(3)
    have run: "best_loop st tol ks (b, merit_at st b, resid_at st b) = (b', m', r')"
      by (auto simp: Let_def split: if_splits)
    from Cons.IH[OF ksN Cons.prems(2) run]
    have ih: "b' < N" "m' = merit_at st b'" "r' = resid_at st b'" "lex_le st b' b"
      "\<forall>j \<in> set ks. j \<noteq> best_index st \<longrightarrow> lex_le st b' j"
      by auto
    have "lex_le st b' k" if "k \<noteq> best_index st"
    proof -
      from False that tolpos have "lex_le st b k"
        by (auto simp: lex_le_def)
      with ih(4) show ?thesis by (rule lex_le_trans)
    qed
    with ih show ?thesis by auto
  qed
qed

lemma ex_tie_fields:
  "npt (models ex_state_tie) = 3" "n (pb ex_state_tie) = 1" "best_index ex_state_tie = 0"
  by (simp_all add: npt_def ex_state_tie_def ex_models_tie_def ex_pb_tie_def ex_pb_def)

lemma ex_tie_merit:
  "merit_at ex_state_tie 0 = 0"
  "merit_at ex_state_tie (Suc 0) = - (10 * eps)"
  "merit_at ex_state_tie 2 = 5"
  by (simp_all add: merit_at_def merit_def ex_state_tie_def ex_models_tie_def ex_pb_tie_def
        ex_pb_def point_def vadd_def vsub_def matvec_def dot_def maximum0_def vabs_def
        linalg_norm_def Let_def)

lemma ex_tie_resid:
  "resid_at ex_state_tie 0 = 0"
  "resid_at ex_state_tie (Suc 0) = 1"
  "resid_at ex_state_tie 2 = 0"
  by (simp_all add: resid_at_def ex_state_tie_def ex_models_tie_def ex_pb_tie_def ex_pb_def
        point_def vadd_def dot_def)

lemma ex_tie_first: "set_best_index ex_state_tie = ex_state_tie\<lparr>best_index := Suc 0\<rparr>"
  using eps_pos eps_small
  by (simp add: set_best_index_def Let_def ex_tie_fields upt3 ex_tie_merit ex_tie_resid
        best_tol_def)

lemma ex_tie_second:
  "set_best_index (ex_state_tie\<lparr>best_index := Suc 0\<rparr>) = ex_state_tie\<lparr>best_index := 0\<rparr>"
  using eps_pos eps_small
  by (simp add: set_best_index_def Let_def ex_tie_fields upt3 ex_tie_merit ex_tie_resid
        best_tol_def merit_at_best_index resid_at_best_index)

text \<open>
  C10, as stated, fails. In the third instance the point of index 1 has the merit value
  \<open>-10 eps\<close> and the residual 1, the point of index 0 has the merit value 0 and
  the residual 0, and the tolerance is \<open>30 eps\<close>. A call that starts at index 0 moves
  to index 1, whose merit value is smaller; the next call starts at index 1 and moves
  back to index 0, whose merit value is within the tolerance and whose residual is
  smaller.
\<close>

theorem set_best_index_idempotent_counterexample:
  "best_index (set_best_index (set_best_index ex_state_tie))
     \<noteq> best_index (set_best_index ex_state_tie)"
  by (simp add: ex_tie_first ex_tie_second)

text \<open>
  C10, amended: in a state whose best index is a valid index, a second call of
  \<open>set_best_index\<close> right after a first one leaves the state, and so the best index,
  unchanged exactly when no other interpolation point beats the point selected by the
  first call (has a smaller merit value, or a merit value below the selected one plus
  the tolerance and a smaller residual). This is the case whenever the tie-breaking
  clause decides between equal merit values only: whenever a point has a smaller
  residual than another and a merit value below the other's plus the tolerance, its
  merit value is not the larger of the two.
\<close>

theorem set_best_index_idempotent:
  assumes valid: "best_index st < npt (models st)"
  shows "(set_best_index (set_best_index st) = set_best_index st
            \<longleftrightarrow> \<not> beaten (set_best_index st))
       \<and> (tie_break_exact st \<longrightarrow> set_best_index (set_best_index st) = set_best_index st)"
proof
  show "set_best_index (set_best_index st) = set_best_index st
          \<longleftrightarrow> \<not> beaten (set_best_index st)"
    by (rule set_best_index_fix_iff)
next
  show "tie_break_exact st \<longrightarrow> set_best_index (set_best_index st) = set_best_index st"
  proof
    assume exact: "tie_break_exact st"
    let ?N = "npt (models st)"
    obtain b' m' r' where run:
      "best_loop st (best_tol st) [0..<?N]
         (best_index st, merit_at st (best_index st), resid_at st (best_index st)) = (b', m', r')"
      by (metis prod_cases3)
    have st1: "set_best_index st = st\<lparr>best_index := b'\<rparr>"
      by (simp add: set_best_index_def Let_def run)
    from valid have Npos: "0 < ?N" by simp
    have exact1: "\<And>j k. j < ?N \<Longrightarrow> k < ?N \<Longrightarrow> resid_at st k < resid_at st j
        \<Longrightarrow> merit_at st k < merit_at st j + best_tol st \<Longrightarrow> merit_at st k \<le> merit_at st j"
      using tie_break_exactD[OF exact valid] by (simp add: best_tol_tol_from)
    have tolpos: "0 < best_tol st"
      using tol_from_pos[OF Npos] by (simp add: best_tol_tol_from)
    have sub: "set [0..<?N] \<subseteq> {..<?N}" by auto
    from best_loop_lexmin[of ?N st "best_tol st", OF exact1 tolpos sub valid run]
    have b'N: "b' < ?N" and le0: "lex_le st b' (best_index st)"
      and le: "\<forall>k \<in> set [0..<?N]. k \<noteq> best_index st \<longrightarrow> lex_le st b' k"
      by auto
    have least: "lex_le st b' k" if "k < ?N" for k
      using that le le0 by (cases "k = best_index st") auto
    let ?st1 = "st\<lparr>best_index := b'\<rparr>"
    have "\<not> beaten ?st1"
    proof
      assume "beaten ?st1"
      then obtain k where kN: "k < ?N" and kb: "k \<noteq> b'"
        and beat: "merit_at st k < merit_at st b'
            \<or> (merit_at st k < merit_at st b' + tol_from st b' \<and> resid_at st k < resid_at st b')"
        by (auto simp: beaten_def beats_def list_ex_iff npt_def best_tol_tol_from
              merit_at_best_index resid_at_best_index tol_from_best_index)
      from least[OF kN] have l: "merit_at st b' < merit_at st k
          \<or> (merit_at st b' = merit_at st k \<and> resid_at st b' \<le> resid_at st k)"
        by (simp add: lex_le_def)
      from beat show False
      proof
        assume "merit_at st k < merit_at st b'"
        with l show False by auto
      next
        assume t: "merit_at st k < merit_at st b' + tol_from st b' \<and> resid_at st k < resid_at st b'"
        with tie_break_exactD[OF exact b'N b'N kN] have "merit_at st k \<le> merit_at st b'"
          by blast
        with l t show False by auto
      qed
    qed
    then have "set_best_index ?st1 = ?st1"
      by (simp add: set_best_index_fix_iff)
    with st1 show "set_best_index (set_best_index st) = set_best_index st" by simp
  qed
qed

lemma ex_act_values:
  "merit_at ex_state_act 0 = - 1"
  "merit_at ex_state_act (Suc 0) = - 1"
  "merit_at ex_state_act 2 = 1"
  "resid_at ex_state_act 0 = 1"
  "resid_at ex_state_act (Suc 0) = 3"
  "resid_at ex_state_act 2 = 0"
  by (simp_all add: merit_at_def merit_def resid_at_def ex_state_act_def ex_models_act_def
        ex_pb_act_def ex_pb_def point_def vadd_def vsub_def matvec_def dot_def maximum0_def
        vabs_def linalg_norm_00x Let_def)

lemma ex_act_tol: "tol_from ex_state_act 0 = 30 * eps" "tol_from ex_state_act (Suc 0) = 30 * eps"
  "tol_from ex_state_act 2 = 30 * eps"
  by (simp_all add: tol_from_def ex_act_values ex_act_fields)

lemma ex_act_tie_break_exact: "tie_break_exact (ex_state_act\<lparr>best_index := Suc 0\<rparr>)"
  unfolding tie_break_exact_def list_all_iff
  using eps_pos eps_small
  by (simp add: ex_act_fields upt3 merit_at_best_index resid_at_best_index tol_from_best_index
        ex_act_values ex_act_tol)

lemma ex_act_tie_first:
  "set_best_index (ex_state_act\<lparr>best_index := Suc 0\<rparr>) = ex_state_act\<lparr>best_index := 0\<rparr>"
  using eps_pos eps_small
  by (simp add: set_best_index_def Let_def ex_act_fields upt3 merit_at_best_index
        resid_at_best_index ex_act_values best_tol_def)

text \<open>
  In the second instance as constructed, the points of index 0 and 1 have the same
  merit value \<open>-1\<close> and the residuals 1 and 3. From the best index 1, which is valid,
  the first call moves to index 0 by the tie-breaking clause; the tie-breaking clause
  decides between equal merit values only, the selected point is not beaten, and the
  second call changes nothing.
\<close>

theorem set_best_index_idempotent_witness:
  "best_index (ex_state_act\<lparr>best_index := Suc 0\<rparr>)
      < npt (models (ex_state_act\<lparr>best_index := Suc 0\<rparr>))
   \<and> tie_break_exact (ex_state_act\<lparr>best_index := Suc 0\<rparr>)
   \<and> best_index (set_best_index (ex_state_act\<lparr>best_index := Suc 0\<rparr>)) = 0
   \<and> \<not> beaten (set_best_index (ex_state_act\<lparr>best_index := Suc 0\<rparr>))
   \<and> set_best_index (set_best_index (ex_state_act\<lparr>best_index := Suc 0\<rparr>))
       = set_best_index (ex_state_act\<lparr>best_index := Suc 0\<rparr>)"
proof -
  have v: "best_index (ex_state_act\<lparr>best_index := Suc 0\<rparr>)
      < npt (models (ex_state_act\<lparr>best_index := Suc 0\<rparr>))"
    by (simp add: ex_act_fields)
  show ?thesis
    using set_best_index_idempotent[OF v] ex_act_tie_break_exact v
    by (auto simp: ex_act_tie_first)
qed

subsection \<open>The Lagrange multipliers\<close>

text \<open>
  When the stacked matrix has no entries, \<open>set_multipliers\<close> returns the state it
  received: the multipliers keep the values they had.
\<close>

lemma set_multipliers_empty_jacobian:
  "length (concat (active_jacobian st)) = 0 \<Longrightarrow> set_multipliers ext st = st"
  by (simp add: set_multipliers_def Let_def)

lemma fill0_assign_nonneg:
  "\<forall>v \<in> set vals. 0 \<le> v \<Longrightarrow> \<forall>x \<in> set (fill0_assign msk vals). 0 \<le> x"
  by (induction msk vals rule: fill0_assign.induct) auto

lemma fill0_assign_inactive:
  "i < length msk \<Longrightarrow> \<not> msk ! i \<Longrightarrow> fill0_assign msk vals ! i = 0"
proof (induction msk vals arbitrary: i rule: fill0_assign.induct)
  case (1 vals)
  then show ?case by simp
next
  case (2 msk v vals)
  then show ?case by (cases i) auto
next
  case (3 msk)
  then show ?case by (cases i) auto
next
  case (4 msk vals)
  then show ?case by (cases i) auto
qed

lemma slice_lower_bounds:
  assumes len: "length xs = length lb"
    and lb: "\<forall>i < length lb. \<forall>l. lb ! i = Some l \<longrightarrow> l \<le> xs ! i"
    and zero: "\<forall>i < m. i < length lb \<longrightarrow> lb ! i = Some 0"
    and jm: "j \<le> m"
  shows "\<forall>v \<in> set (slice i j xs). 0 \<le> v"
proof
  fix v assume "v \<in> set (slice i j xs)"
  then obtain k where k: "k < length (slice i j xs)" and v: "v = slice i j xs ! k"
    by (auto simp: in_set_conv_nth)
  from k have k1: "k < j - i" and k2: "i + k < length xs"
    by (auto simp: slice_def)
  from v k1 k2 have vx: "v = xs ! (i + k)" by (simp add: slice_def)
  from k1 jm have "i + k < m" by simp
  with zero k2 len have "lb ! (i + k) = Some 0" by simp
  with lb k2 len vx show "0 \<le> v" by auto
qed

lemma xl_lm_zero:
  "\<forall>i < m. i < length (replicate (min m len) (Some 0) @ replicate (len - m) None)
      \<longrightarrow> (replicate (min m len) (Some (0::real)) @ replicate (len - m) None) ! i = Some 0"
  by (auto simp: nth_append)

lemma lm_ub_select:
  "lm_linear_ub (st\<lparr>lm_linear_ub := a, lm_nonlinear_ub := b, lm_linear_eq := c,
      lm_nonlinear_eq := d\<rparr>) = a"
  "lm_nonlinear_ub (st\<lparr>lm_linear_ub := a, lm_nonlinear_ub := b, lm_linear_eq := c,
      lm_nonlinear_eq := d\<rparr>) = b"
  by simp_all

text \<open>
  When the stacked matrix has entries and \<open>lsq_linear\<close> respects its bounds, the
  multipliers of the linear and nonlinear inequality constraints are nonnegative after
  \<open>set_multipliers\<close>, and those of the inactive constraints are zero.
\<close>

lemma set_multipliers_nonempty_jacobian:
  assumes contract: "lsq_contract ext"
    and nonempty: "0 < length (concat (active_jacobian st))"
  shows "(\<forall>x \<in> set (lm_linear_ub (set_multipliers ext st)). 0 \<le> x)
       \<and> (\<forall>x \<in> set (lm_nonlinear_ub (set_multipliers ext st)). 0 \<le> x)
       \<and> (\<forall>i < length (linear_ub_a (pb st)). i < length (linear_ub_b (pb st)) \<longrightarrow>
             \<not> matvec (linear_ub_a (pb st)) (x_best st) ! i \<ge> linear_ub_b (pb st) ! i \<longrightarrow>
             lm_linear_ub (set_multipliers ext st) ! i = 0)
       \<and> (\<forall>i < length (cub_best st). \<not> cub_best st ! i \<ge> 0 \<longrightarrow>
             lm_nonlinear_ub (set_multipliers ext st) ! i = 0)"
proof -
  define incl_linear where
    "incl_linear = vge (matvec (linear_ub_a (pb st)) (x_best st)) (linear_ub_b (pb st))"
  define incl_nonlinear where "incl_nonlinear = map (\<lambda>c. c \<ge> 0) (cub_best st)"
  define m_xl where "m_xl = count_nonzero (vge (xl (pb st)) (x_best st))"
  define m_xu where "m_xu = count_nonzero (vle (xu (pb st)) (x_best st))"
  define m_linear where "m_linear = count_nonzero incl_linear"
  define m_ub where "m_ub = m_xl + m_xu + m_linear + count_nonzero incl_nonlinear"
  define len where "len = length (active_jacobian st)"
  define lb :: "real option list" where
    "lb = replicate (min m_ub len) (Some 0) @ replicate (len - m_ub) None"
  define res where
    "res = lsq_linear ext (transpose (active_jacobian st))
             (vneg (fun_grad (models st) (x_best st))) lb"
  have lin: "lm_linear_ub (set_multipliers ext st)
      = fill0_assign incl_linear (slice (m_xl + m_xu) (m_xl + m_xu + m_linear) res)"
    unfolding res_def lb_def len_def m_ub_def m_linear_def m_xu_def m_xl_def incl_nonlinear_def
      incl_linear_def set_multipliers_def Let_def
    by (simp only: nonempty if_True lm_ub_select)
  have nonlin: "lm_nonlinear_ub (set_multipliers ext st)
      = fill0_assign incl_nonlinear (slice (m_xl + m_xu + m_linear) m_ub res)"
    unfolding res_def lb_def len_def m_ub_def m_linear_def m_xu_def m_xl_def incl_nonlinear_def
      incl_linear_def set_multipliers_def Let_def
    by (simp only: nonempty if_True lm_ub_select)
  from contract
  have "length (lsq_linear ext (transpose (active_jacobian st))
                  (vneg (fun_grad (models st) (x_best st))) lb) = length lb
        \<and> (\<forall>i < length lb. \<forall>l. lb ! i = Some l \<longrightarrow>
              l \<le> lsq_linear ext (transpose (active_jacobian st))
                     (vneg (fun_grad (models st) (x_best st))) lb ! i)"
    unfolding lsq_contract_def by (elim allE)
  then have len: "length res = length lb"
    and low: "\<forall>i < length lb. \<forall>l. lb ! i = Some l \<longrightarrow> l \<le> res ! i"
    unfolding res_def by simp_all
  have zero: "\<forall>i < m_ub. i < length lb \<longrightarrow> lb ! i = Some 0"
    unfolding lb_def by (rule xl_lm_zero)
  have le1: "m_xl + m_xu + m_linear \<le> m_ub" by (simp add: m_ub_def)
  have s1: "\<forall>v \<in> set (slice (m_xl + m_xu) (m_xl + m_xu + m_linear) res). 0 \<le> v"
    using len low zero le1 by (rule slice_lower_bounds)
  have s2: "\<forall>v \<in> set (slice (m_xl + m_xu + m_linear) m_ub res). 0 \<le> v"
    using len low zero order_refl by (rule slice_lower_bounds)
  have a: "\<forall>x \<in> set (lm_linear_ub (set_multipliers ext st)). 0 \<le> x"
    unfolding lin by (rule fill0_assign_nonneg[OF s1])
  have b: "\<forall>x \<in> set (lm_nonlinear_ub (set_multipliers ext st)). 0 \<le> x"
    unfolding nonlin by (rule fill0_assign_nonneg[OF s2])
  have c: "lm_linear_ub (set_multipliers ext st) ! i = 0"
    if "i < length (linear_ub_a (pb st))" "i < length (linear_ub_b (pb st))"
      "\<not> matvec (linear_ub_a (pb st)) (x_best st) ! i \<ge> linear_ub_b (pb st) ! i" for i
  proof -
    from that have "i < length incl_linear" "\<not> incl_linear ! i"
      by (simp_all add: incl_linear_def vge_def matvec_def)
    then show ?thesis unfolding lin by (rule fill0_assign_inactive)
  qed
  have d: "lm_nonlinear_ub (set_multipliers ext st) ! i = 0"
    if "i < length (cub_best st)" "\<not> cub_best st ! i \<ge> 0" for i
  proof -
    from that have "i < length incl_nonlinear" "\<not> incl_nonlinear ! i"
      by (simp_all add: incl_nonlinear_def)
    then show ?thesis unfolding nonlin by (rule fill0_assign_inactive)
  qed
  from a b c d show ?thesis by blast
qed

subsection \<open>The first call of the constructor\<close>

lemma ex_low_penalty: "get_low_penalty ex_state0 = Some 0"
  by (simp add: get_low_penalty_def ex_state0_def ex_pb_def ex_models_def Let_def
        vadd_def vsub_def vneg_def matvec_def dot_def select_def)

lemma ex_state0_merit:
  "merit_at ex_state0 0 = 25"
  "merit_at ex_state0 (Suc 0) = 16"
  "merit_at ex_state0 2 = 36"
  by (simp_all add: merit_at_def merit_def ex_state0_def ex_models_def Let_def)

lemma ex_state0_best: "set_best_index ex_state0 = ex_state0\<lparr>best_index := Suc 0\<rparr>"
proof -
  have s: "npt (models ex_state0) = 3" "n (pb ex_state0) = 1" "best_index ex_state0 = 0"
    by (simp_all add: npt_def ex_state0_def ex_models_def ex_pb_def)
  show ?thesis
    using eps_pos eps_small
    by (simp add: set_best_index_def Let_def s upt3 ex_state0_merit best_tol_def)
qed

lemma ex_state0_jac:
  "active_jacobian (ex_state0\<lparr>best_index := Suc 0, lm_linear_ub := a, lm_linear_eq := b,
      lm_nonlinear_ub := c, lm_nonlinear_eq := d\<rparr>) = []"
  by (simp add: active_jacobian_def ex_state0_def ex_pb_def ex_models_def Let_def x_best_def
        cub_best_def point_def vadd_def vge_def vle_def matvec_def dot_def select_def
        cub_grad_mask_def eye_def)

lemma ex_state0_same:
  "ex_state0\<lparr>penalty := 0\<rparr> = ex_state0" "ex_state0\<lparr>best_index := 0\<rparr> = ex_state0"
  by (simp_all add: ex_state0_def)

lemma ex_np_empty:
  "np_empty (mem_linear_ub ex_mem) (m_linear_ub ex_pb) = [- 1]"
  "np_empty (mem_linear_eq ex_mem) (m_linear_eq ex_pb) = []"
  "np_empty (mem_nonlinear_ub ex_mem) (m_nonlinear_ub ex_pb) = []"
  "np_empty (mem_nonlinear_eq ex_mem) (m_nonlinear_eq ex_pb) = []"
  by (simp_all add: np_empty_def ex_mem_def ex_pb_def)

lemma ex_init:
  "init ex_ext ex_mem ex_pb ex_models ex_opts
      = ex_state0\<lparr>best_index := Suc 0, lm_linear_ub := [- 1], lm_linear_eq := [],
          lm_nonlinear_ub := [], lm_nonlinear_eq := [], resolution := 1, radius := 1\<rparr>"
proof -
  have "set_multipliers ex_ext (ex_state0\<lparr>best_index := Suc 0, lm_linear_ub := [- 1],
            lm_linear_eq := [], lm_nonlinear_ub := [], lm_nonlinear_eq := []\<rparr>)
      = ex_state0\<lparr>best_index := Suc 0, lm_linear_ub := [- 1],
            lm_linear_eq := [], lm_nonlinear_ub := [], lm_nonlinear_eq := []\<rparr>"
    by (rule set_multipliers_empty_jacobian) (simp add: ex_state0_jac)
  then show ?thesis
    unfolding init_def ex_state0_def[symmetric]
    by (simp add: Let_def ex_low_penalty ex_state0_same ex_state0_best ex_np_empty ex_opts_def)
qed

text \<open>
  C1: on the first instance the constructor selects the best point \<open>-4\<close>, at which
  neither a bound nor the linear constraint is active, so that the stacked matrix of
  the first call of \<open>set_multipliers\<close> has no entries. The call leaves the array of
  the multipliers of the linear inequality constraints as \<open>np.empty\<close> created it: with
  memory contents \<open>-1\<close> the constructed state has the multiplier \<open>-1\<close>, not \<open>0\<close>.
\<close>

theorem init_multipliers_uninitialized:
  "length (concat (active_jacobian (init ex_ext ex_mem ex_pb ex_models ex_opts))) = 0
   \<and> lm_linear_ub (init ex_ext ex_mem ex_pb ex_models ex_opts) = [- 1]"
proof -
  have "active_jacobian (ex_state0\<lparr>best_index := Suc 0, lm_linear_ub := [- 1], lm_linear_eq := [],
          lm_nonlinear_ub := [], lm_nonlinear_eq := [], resolution := 1, radius := 1\<rparr>) = []"
    by (simp add: active_jacobian_def ex_state0_def ex_pb_def ex_models_def Let_def x_best_def
        cub_best_def point_def vadd_def vge_def vle_def matvec_def dot_def select_def
        cub_grad_mask_def eye_def)
  then show ?thesis by (simp add: ex_init)
qed

subsection \<open>A multiplier that outlives its active constraint\<close>

lemma ex_act_low_penalty: "get_low_penalty ex_state0_act = Some 2"
  using tiny_pos tiny_small
  by (simp add: get_low_penalty_def ex_state0_act_def ex_pb_act_def ex_pb_def ex_models_act_def
        Let_def vadd_def vsub_def vneg_def matvec_def dot_def select_def)

lemma ex_state0_act_best:
  "set_best_index (ex_state0_act\<lparr>penalty := 2\<rparr>) = ex_state0_act\<lparr>penalty := 2\<rparr>"
proof -
  have s: "npt (models ex_state0_act) = 3" "n (pb ex_state0_act) = 1"
    "best_index ex_state0_act = 0"
    by (simp_all add: npt_def ex_state0_act_def ex_models_act_def ex_pb_act_def ex_pb_def)
  have m: "merit_at (ex_state0_act\<lparr>penalty := 2\<rparr>) 0 = - 1"
    "merit_at (ex_state0_act\<lparr>penalty := 2\<rparr>) (Suc 0) = - 1"
    "merit_at (ex_state0_act\<lparr>penalty := 2\<rparr>) 2 = 1"
    by (simp_all add: merit_at_def merit_def ex_state0_act_def ex_models_act_def ex_pb_act_def
          ex_pb_def point_def vadd_def vsub_def matvec_def dot_def maximum0_def vabs_def
          linalg_norm_00x Let_def)
  have r: "resid_at (ex_state0_act\<lparr>penalty := 2\<rparr>) 0 = 1"
    "resid_at (ex_state0_act\<lparr>penalty := 2\<rparr>) (Suc 0) = 3"
    "resid_at (ex_state0_act\<lparr>penalty := 2\<rparr>) 2 = 0"
    by (simp_all add: resid_at_def ex_state0_act_def ex_models_act_def ex_pb_act_def ex_pb_def
          point_def vadd_def dot_def)
  have e: "ex_state0_act\<lparr>penalty := 2, best_index := 0\<rparr> = ex_state0_act\<lparr>penalty := 2\<rparr>"
    by (simp add: ex_state0_act_def)
  show ?thesis
    using eps_pos eps_small
    by (simp add: set_best_index_def Let_def s upt3 m r best_tol_def e)
qed

lemma ex_state0_act_multipliers:
  "set_multipliers ex_ext (ex_state0_act\<lparr>penalty := 2, lm_linear_ub := [- 1]\<rparr>)
     = ex_state0_act\<lparr>penalty := 2, lm_linear_ub := [2]\<rparr>"
proof -
  have j: "active_jacobian (ex_state0_act\<lparr>penalty := 2, lm_linear_ub := [- 1]\<rparr>) = [[1]]"
    by (simp add: active_jacobian_def ex_state0_act_def ex_pb_act_def ex_pb_def ex_models_act_def
          Let_def x_best_def cub_best_def point_def vadd_def vge_def vle_def matvec_def dot_def
          select_def cub_grad_mask_def eye_def)
  show ?thesis
    by (simp add: set_multipliers_def j Let_def)
       (simp add: ex_state0_act_def ex_pb_act_def ex_pb_def ex_models_act_def ex_ext_def
          x_best_def cub_best_def point_def vadd_def vge_def vle_def vneg_def
          matvec_def dot_def count_nonzero_def slice_def)
qed

lemma ex_init_act:
  "init ex_ext ex_mem ex_pb_act ex_models_act (ex_opts\<lparr>radius_init := 2\<rparr>) = ex_state_act"
proof -
  have e: "np_empty (mem_linear_ub ex_mem) (m_linear_ub ex_pb_act) = [- 1]"
    "np_empty (mem_linear_eq ex_mem) (m_linear_eq ex_pb_act) = []"
    "np_empty (mem_nonlinear_ub ex_mem) (m_nonlinear_ub ex_pb_act) = []"
    "np_empty (mem_nonlinear_eq ex_mem) (m_nonlinear_eq ex_pb_act) = []"
    by (simp_all add: np_empty_def ex_mem_def ex_pb_act_def ex_pb_def)
  have z: "ex_state0_act\<lparr>penalty := 2, best_index := 0\<rparr> = ex_state0_act\<lparr>penalty := 2\<rparr>"
    "ex_state0_act\<lparr>penalty := 2, lm_linear_ub := [- 1], lm_linear_eq := [],
        lm_nonlinear_ub := [], lm_nonlinear_eq := []\<rparr>
      = ex_state0_act\<lparr>penalty := 2, lm_linear_ub := [- 1]\<rparr>"
    "ex_state0_act\<lparr>penalty := 2, lm_linear_ub := [2], resolution := 2, radius := 2\<rparr>
      = ex_state_act"
    by (simp_all add: ex_state0_act_def ex_state_act_def)
  show ?thesis
    unfolding init_def ex_state0_act_def[symmetric]
    by (simp add: Let_def ex_act_low_penalty ex_state0_act_best e z ex_state0_act_multipliers)
qed

text \<open>
  C2: on the instance with an active constraint and the initial radius 2, the
  constructor selects the best point \<open>1\<close> and its call of \<open>set_multipliers\<close> gives the
  linear constraint \<open>x \<le> 0\<close> the multiplier 2. \<open>increase_penalty\<close> with the step
  \<open>-2\<close> then moves the best point to \<open>-1\<close>, at which the constraint is inactive
  (\<open>-1 < 0\<close>) and no bound is active; the next call of \<open>set_multipliers\<close> finds a
  stacked matrix without entries and leaves the multiplier of the inactive constraint
  at 2.
\<close>

theorem set_multipliers_stale_multiplier:
  "lm_linear_ub (init ex_ext ex_mem ex_pb_act ex_models_act (ex_opts\<lparr>radius_init := 2\<rparr>)) = [2]
   \<and> x_best (set_multipliers ex_ext (fst (increase_penalty [- 2]
        (init ex_ext ex_mem ex_pb_act ex_models_act (ex_opts\<lparr>radius_init := 2\<rparr>))))) = [- 1]
   \<and> linear_ub_a ex_pb_act = [[1]] \<and> linear_ub_b ex_pb_act = [0]
   \<and> lm_linear_ub (set_multipliers ex_ext (fst (increase_penalty [- 2]
        (init ex_ext ex_mem ex_pb_act ex_models_act (ex_opts\<lparr>radius_init := 2\<rparr>))))) = [2]"
proof -
  have "set_multipliers ex_ext (ex_state_act\<lparr>penalty := 8, best_index := 2\<rparr>)
      = ex_state_act\<lparr>penalty := 8, best_index := 2\<rparr>"
    by (rule set_multipliers_empty_jacobian) (simp add: ex_act_moved_jac)
  then show ?thesis
    by (simp add: ex_init_act ex_act_increase)
       (simp add: x_best_def point_def vadd_def ex_state_act_def ex_models_act_def ex_pb_act_def
          ex_pb_def)
qed

end
